theory Spec2Isabelle
  imports Main "HOL-Library.Word"
begin

unbundle bit_operations_syntax

section \<open>The heap coordinator of the VM (vm/alloc/Heap.c)\<close>

text \<open>
  Heap.c coordinates the mutators and the mark-sweep collector: nearly all of what it does
  is calling into the heap source, the mark-sweep engine, the thread registry and the
  reference tables, in a fixed order and under a few flags of its own. The model keeps
  that shape. The functions of Heap.c are programs over the globals they read and write
  (the record \<open>vm\<close>); a function that lives in another file is a \<^emph>\<open>call\<close>: it is
  recorded, with its arguments, in the list of events the program emits, and what it
  returns and does is taken from an environment \<open>E\<close> about which nothing is assumed.

  Integers are those of the 32-bit targets of this VM: \<open>u4\<close>, \<open>size_t\<close>,
  \<open>uintptr_t\<close>, \<open>int\<close> and pointers are 32-bit words, \<open>NULL\<close> is the word 0, and a C
  \<open>bool\<close> returned by a call is true when the word is not 0.

  The \<open>assert\<close>s of the source state what the caller owes and are not part of the
  model; taking a mutex is a call that returns.
\<close>

subsection \<open>Types\<close>

type_synonym u4 = "32 word"
type_synonym size_t = "32 word"
type_synonym obj = "32 word"

abbreviation (input) NULL :: "32 word" where
  "NULL \<equiv> 0"

datatype GcReason = GC_FOR_MALLOC | GC_CONCURRENT | GC_EXPLICIT

datatype GcMode = GC_PARTIAL | GC_FULL

datatype HeapWorkerOperation = WORKER_FINALIZE | WORKER_ENQUEUE

datatype mutex = GcHeapLock | HeapWorkerLock | HeapWorkerListLock

datatype HeapSourceValueSpec = HS_FOOTPRINT | HS_BYTES_ALLOCATED

datatype SchedPolicy = SP_BACKGROUND | SP_FOREGROUND

text \<open>The three large reference tables of \<open>GcHeap\<close>.\<close>

datatype largeTable = FinalizableRefs | PendingFinalizationRefs | ReferenceOperations

text \<open>
  The functions Heap.c calls and does not define, with the arguments that decide what is
  done. \<open>errno\<close> is a read of the C variable after \<open>getpriority\<close> or
  \<open>setpriority\<close>;
  \<open>addRefToLargeTable\<close> and \<open>getNextObjectFromLargeTable\<close> record the calls of
  \<open>dvmHeapAddRefToLargeTable\<close> and \<open>dvmHeapGetNextObjectFromLargeTable\<close>.
\<close>

datatype (plugins only: code) call =
    dvmTryLockMutex mutex
  | dvmLockMutex mutex
  | dvmUnlockMutex mutex
  | dvmChangeStatus u4
  | dvmWaitCond
  | dvmBroadcastCond
  | addRefToLargeTable largeTable obj
  | getNextObjectFromLargeTable largeTable
  | dvmAddTrackedAlloc obj
  | dvmHeapSourceAlloc size_t
  | dvmHeapSourceAllocAndGrow size_t
  | dvmHeapSourceGetIdealFootprint
  | dvmHeapSourceContains obj
  | dvmHeapSourceGetValue HeapSourceValueSpec
  | dvmHeapSourceGetLiveBits
  | dvmHeapSourceSwapBitmaps
  | dvmHeapSourceGrowForUtilization
  | dvmScheduleHeapSourceTrim u4
  | dvmDumpThread
  | dvmIsOnThreadList
  | dvmThrowException string "string option"
  | dvmSetException obj
  | dvmAbort
  | dvmGetRelativeTimeMsec
  | dvmSuspendAllThreads
  | dvmResumeAllThreads
  | getpriority
  | errno
  | setpriority u4
  | dvmGetSysThreadId
  | set_sched_policy u4 SchedPolicy
  | dvmAssertHeapWorkerThreadRunning
  | dvmVerifyRoots
  | dvmVerifyBitmap u4
  | dvmVerifyCardTable
  | dvmMethodTraceGCBegin
  | dvmMethodTraceGCEnd
  | dvmHeapBeginMarkStep GcMode
  | dvmHeapMarkRootSet
  | dvmClearCardTable
  | dvmHeapScanMarkedObjects
  | dvmHeapReMarkRootSet
  | dvmHeapReScanMarkedObjects
  | dvmHeapProcessReferences bool
  | dvmCompilerPerformSafePointChecks
  | dvmHeapSweepSystemWeaks
  | dvmHeapSweepUnmarkedObjects GcMode bool
  | dvmHeapFinishMarkStep
  | dvmDdmSendHeapInfo u4 bool
  | dvmDdmSendHeapSegments bool bool

text \<open>
  A log statement is recorded with its macro, its format string and its arguments as the
  source writes them; \<open>FRACTIONAL_MB\<close> and \<open>strerror\<close> stay symbolic.
\<close>

datatype logMacro = LOGV_HEAP | LOGD_HEAP | LOGI_HEAP | LOGW_HEAP | LOGE_HEAP | LOGD

datatype logArg = Str string | Num u4 | FRACTIONAL_MB size_t | Strerror u4

datatype event = Call call | Log logMacro string "logArg list"

subsection \<open>The globals\<close>

record AllocProfState =
  enabled :: bool
  allocCount :: u4
  allocSize :: u4
  failedAllocCount :: u4
  failedAllocSize :: u4
  gcCount :: u4

text \<open>
  The fields of \<open>gDvm\<close>, of \<open>gDvm.gcHeap\<close> and of the calling thread's \<open>Thread\<close>
  that Heap.c reads or writes itself. A reference table is the list of its entries, the
  empty list for the \<open>NULL\<close> table. Everything else (the heap source, the bitmaps, the
  thread registry, the clock) is the \<open>world\<close>, of a type the model does not look into.
\<close>

record 'w vm =
  heapGrowthLimit :: size_t
  allocProf :: AllocProfState
  preVerify :: bool
  postVerify :: bool
  verifyCardTable :: bool
  outOfMemoryObj :: obj
  gcRunning :: bool
  finalizableRefs :: "obj list"
  pendingFinalizationRefs :: "obj list"
  referenceOperations :: "obj list"
  softReferences :: obj
  weakReferences :: obj
  phantomReferences :: obj
  ddmHpifWhen :: u4
  ddmHpsgWhen :: u4
  ddmNhsgWhen :: u4
  self_throwingOOME :: bool
  self_allocProf :: AllocProfState
  world :: 'w

text \<open>
  The environment: what each call returns (\<open>ret\<close>) and does. A call that only works on
  its own module's data changes the world (\<open>eff\<close>). A call that runs code of the VM
  with the globals in reach (the mark-sweep engine, resuming the mutators, waiting on the
  condition variable, throwing) may change any global (\<open>vm_eff\<close>). \<open>aborts\<close> says
  whether a checking call ends the process. \<open>swept\<close> is what
  \<open>dvmHeapSweepUnmarkedObjects\<close> stores through its two result pointers,
  \<open>(numObjectsFreed, numBytesFreed)\<close>; \<open>largeTableHasRoom\<close> is whether the native
  allocation inside \<open>dvmHeapAddRefToLargeTable\<close> succeeds; \<open>float_percent a f\<close> is
  the C expression \<open>(size_t)(100.0f * (float)a / f)\<close>. \<open>dvmThreadSelf\<close> is whether
  the calling thread has a \<open>Thread\<close> structure (whether \<open>dvmThreadSelf()\<close> is
  not \<open>NULL\<close>). \<open>uninitialised\<close> is the value of a local variable that was never
  assigned. The remaining fields are constants and build flags of headers outside this
  file.
\<close>

record 'w env =
  ret :: "call \<Rightarrow> 'w \<Rightarrow> u4"
  eff :: "call \<Rightarrow> 'w \<Rightarrow> 'w"
  vm_eff :: "call \<Rightarrow> 'w vm \<Rightarrow> 'w vm"
  aborts :: "call \<Rightarrow> 'w \<Rightarrow> bool"
  swept :: "'w \<Rightarrow> size_t \<times> size_t"
  largeTableHasRoom :: "'w \<Rightarrow> bool"
  float_percent :: "size_t \<Rightarrow> size_t \<Rightarrow> size_t"
  dvmThreadSelf :: bool
  uninitialised :: u4
  ALLOC_DONT_TRACK :: u4
  ALLOC_FINALIZABLE :: u4
  THREAD_VMWAIT :: u4
  ANDROID_PRIORITY_NORMAL :: u4
  ANDROID_PRIORITY_BACKGROUND :: u4
  WITH_JIT :: bool

subsection \<open>Programs\<close>

text \<open>
  A program runs from the globals and either does not return (\<open>None\<close>: the wait loop
  can go on for ever) or ends with new globals and the events it emitted, in order. It
  ends by returning a value or by aborting the process.
\<close>

datatype 'a outcome = Returned 'a | Aborted

type_synonym ('a, 'w) prog = "'w vm \<Rightarrow> ('a outcome \<times> 'w vm \<times> event list) option"

definition returnM :: "'a \<Rightarrow> ('a, 'w) prog" where
  "returnM x = (\<lambda>s. Some (Returned x, s, []))"

definition bindM :: "('a, 'w) prog \<Rightarrow> ('a \<Rightarrow> ('b, 'w) prog) \<Rightarrow> ('b, 'w) prog" where
  "bindM m f = (\<lambda>s.
     case m s of
       None \<Rightarrow> None
     | Some (Aborted, s1, out1) \<Rightarrow> Some (Aborted, s1, out1)
     | Some (Returned x, s1, out1) \<Rightarrow>
         (case f x s1 of
            None \<Rightarrow> None
          | Some (r, s2, out2) \<Rightarrow> Some (r, s2, out1 @ out2)))"

definition thenM :: "('a, 'w) prog \<Rightarrow> ('b, 'w) prog \<Rightarrow> ('b, 'w) prog" where
  "thenM m n = bindM m (\<lambda>_. n)"

definition whenM :: "bool \<Rightarrow> ('a, 'w) prog \<Rightarrow> (unit, 'w) prog" where
  "whenM b m = (if b then thenM m (returnM ()) else returnM ())"

definition getM :: "('w vm, 'w) prog" where
  "getM = (\<lambda>s. Some (Returned s, s, []))"

definition modifyM :: "('w vm \<Rightarrow> 'w vm) \<Rightarrow> (unit, 'w) prog" where
  "modifyM f = (\<lambda>s. Some (Returned (), f s, []))"

definition logM :: "logMacro \<Rightarrow> string \<Rightarrow> logArg list \<Rightarrow> (unit, 'w) prog" where
  "logM m fmt args = (\<lambda>s. Some (Returned (), s, [Log m fmt args]))"

text \<open>A call into a module that keeps to its own data.\<close>

definition callM :: "'w env \<Rightarrow> call \<Rightarrow> (u4, 'w) prog" where
  "callM E c = (\<lambda>s.
     Some (Returned (ret E c (world s)), s\<lparr>world := eff E c (world s)\<rparr>, [Call c]))"

text \<open>A getter or a diagnostic dump: it changes nothing.\<close>

definition queryM :: "'w env \<Rightarrow> call \<Rightarrow> (u4, 'w) prog" where
  "queryM E c = (\<lambda>s. Some (Returned (ret E c (world s)), s, [Call c]))"

text \<open>A call that runs code of the VM with the globals in reach.\<close>

definition engineM :: "'w env \<Rightarrow> call \<Rightarrow> (u4, 'w) prog" where
  "engineM E c = (\<lambda>s. Some (Returned (ret E c (world s)), vm_eff E c s, [Call c]))"

text \<open>
  A checking call: it prints a message and aborts the VM when its check fails, as the
  source says of \<open>dvmAssertHeapWorkerThreadRunning\<close> and the spec of the verifiers.
\<close>

definition checkM :: "'w env \<Rightarrow> call \<Rightarrow> (unit, 'w) prog" where
  "checkM E c = (\<lambda>s.
     if aborts E c (world s) then Some (Aborted, s, [Call c])
     else Some (Returned (), s\<lparr>world := eff E c (world s)\<rparr>, [Call c]))"

text \<open>\<open>dvmAbort()\<close>: the process ends.\<close>

definition abortM :: "('a, 'w) prog" where
  "abortM = (\<lambda>s. Some (Aborted, s, [Call dvmAbort]))"

subsection \<open>dvmIsValidObject\<close>

definition dvmIsValidObject :: "'w env \<Rightarrow> obj \<Rightarrow> (bool, 'w) prog" where
  "dvmIsValidObject E obj =
     (if obj \<noteq> NULL \<and> obj AND (8 - 1) = 0 then
        bindM (queryM E (dvmHeapSourceContains obj)) (\<lambda>r. returnM (r \<noteq> 0))
      else returnM False)"

subsection \<open>The heap lock\<close>

definition dvmLockHeap :: "'w env \<Rightarrow> (bool, 'w) prog" where
  "dvmLockHeap E =
     bindM (callM E (dvmTryLockMutex GcHeapLock)) (\<lambda>rc.
     thenM (whenM (rc \<noteq> 0)
             (bindM (callM E (dvmChangeStatus (THREAD_VMWAIT E))) (\<lambda>oldStatus.
              thenM (callM E (dvmLockMutex GcHeapLock))
                    (callM E (dvmChangeStatus oldStatus)))))
           (returnM True))"

definition dvmUnlockHeap :: "'w env \<Rightarrow> (unit, 'w) prog" where
  "dvmUnlockHeap E = thenM (callM E (dvmUnlockMutex GcHeapLock)) (returnM ())"

subsection \<open>The reference tables\<close>

fun table_of :: "largeTable \<Rightarrow> 'w vm \<Rightarrow> obj list" where
  "table_of FinalizableRefs s = finalizableRefs s"
| "table_of PendingFinalizationRefs s = pendingFinalizationRefs s"
| "table_of ReferenceOperations s = referenceOperations s"

fun table_update :: "largeTable \<Rightarrow> obj list \<Rightarrow> 'w vm \<Rightarrow> 'w vm" where
  "table_update FinalizableRefs refs s = s\<lparr>finalizableRefs := refs\<rparr>"
| "table_update PendingFinalizationRefs refs s = s\<lparr>pendingFinalizationRefs := refs\<rparr>"
| "table_update ReferenceOperations refs s = s\<lparr>referenceOperations := refs\<rparr>"

text \<open>
  Modelled from the spec: \<open>dvmHeapGetNextObjectFromLargeTable\<close> is defined in
  HeapTable.c, which is not among the sources. The spec calls the tables FIFOs (4.2):
  the next object is the oldest entry, which leaves the table, and \<open>NULL\<close> when the
  table is empty.
\<close>

definition dvmHeapGetNextObjectFromLargeTable :: "largeTable \<Rightarrow> (obj, 'w) prog" where
  "dvmHeapGetNextObjectFromLargeTable T = (\<lambda>s.
     case table_of T s of
       [] \<Rightarrow> Some (Returned NULL, s, [Call (getNextObjectFromLargeTable T)])
     | ref # refs \<Rightarrow>
         Some (Returned ref, table_update T refs s, [Call (getNextObjectFromLargeTable T)]))"

text \<open>
  Modelled from the spec: \<open>dvmHeapAddRefToLargeTable\<close> is defined in HeapTable.c,
  which is not among the sources. The spec appends the reference to the table (4.4) and
  lets the append fail; the model appends when the native allocation has room and returns
  false, with the table as it was, when it has not.
\<close>

definition dvmHeapAddRefToLargeTable :: "'w env \<Rightarrow> largeTable \<Rightarrow> obj \<Rightarrow> (bool, 'w) prog" where
  "dvmHeapAddRefToLargeTable E T ref = (\<lambda>s.
     if largeTableHasRoom E (world s) then
       Some (Returned True, table_update T (table_of T s @ [ref]) s,
             [Call (addRefToLargeTable T ref)])
     else Some (Returned False, s, [Call (addRefToLargeTable T ref)]))"

subsection \<open>dvmGetNextHeapWorkerObject\<close>

text \<open>
  The result parameter \<open>*op\<close> is an argument (its value at the call) and a second
  result (its value at the return).
\<close>

definition dvmGetNextHeapWorkerObject ::
  "'w env \<Rightarrow> HeapWorkerOperation \<Rightarrow> (obj \<times> HeapWorkerOperation, 'w) prog" where
  "dvmGetNextHeapWorkerObject E op =
     thenM (callM E (dvmLockMutex HeapWorkerListLock))
    (bindM (dvmHeapGetNextObjectFromLargeTable ReferenceOperations) (\<lambda>obj.
     bindM (if obj \<noteq> NULL then returnM (obj, WORKER_ENQUEUE)
            else
              bindM (dvmHeapGetNextObjectFromLargeTable PendingFinalizationRefs) (\<lambda>obj.
              if obj \<noteq> NULL then returnM (obj, WORKER_FINALIZE)
              else returnM (obj, op))) (\<lambda>(obj, op).
     thenM (whenM (obj \<noteq> NULL) (callM E (dvmAddTrackedAlloc obj)))
    (thenM (callM E (dvmUnlockMutex HeapWorkerListLock))
           (returnM (obj, op))))))"

subsection \<open>dvmWaitForConcurrentGcToComplete\<close>

text \<open>One turn of the loop: the three statements of its body.\<close>

definition wait_body :: "'w env \<Rightarrow> (unit, 'w) prog" where
  "wait_body E =
     bindM (callM E (dvmChangeStatus (THREAD_VMWAIT E))) (\<lambda>oldStatus.
     thenM (engineM E dvmWaitCond)
    (thenM (callM E (dvmChangeStatus oldStatus))
           (returnM ())))"

partial_function (option) wait_loop ::
  "'w env \<Rightarrow> 'w vm \<Rightarrow> event list \<Rightarrow> (unit outcome \<times> 'w vm \<times> event list) option" where
  "wait_loop E s out =
     (if gcRunning s then
        (case wait_body E s of
           None \<Rightarrow> None
         | Some (Aborted, s', out') \<Rightarrow> Some (Aborted, s', out @ out')
         | Some (Returned _, s', out') \<Rightarrow> wait_loop E s' (out @ out'))
      else Some (Returned (), s, out))"

declare wait_loop.simps [code]

definition dvmWaitForConcurrentGcToComplete :: "'w env \<Rightarrow> (unit, 'w) prog" where
  "dvmWaitForConcurrentGcToComplete E = (\<lambda>s. wait_loop E s [])"

subsection \<open>dvmCollectGarbageInternal\<close>

fun GcReasonStr :: "GcReason \<Rightarrow> string" where
  "GcReasonStr GC_FOR_MALLOC = ''GC_FOR_MALLOC''"
| "GcReasonStr GC_CONCURRENT = ''GC_CONCURRENT''"
| "GcReasonStr GC_EXPLICIT = ''GC_EXPLICIT''"

definition kInvalidPriority :: u4 where
  "kInvalidPriority = 10000"

definition verifyRootsAndHeap :: "'w env \<Rightarrow> (unit, 'w) prog" where
  "verifyRootsAndHeap E =
     thenM (checkM E dvmVerifyRoots)
    (bindM (queryM E dvmHeapSourceGetLiveBits) (\<lambda>bits.
     checkM E (dvmVerifyBitmap bits)))"

text \<open>
  The body of the collector is one long sequence; the model cuts it into consecutive
  pieces, each returning the local variables it assigns. First, from the choice of the
  mode to the first suspension. It returns \<open>(gcMode, rootSuspendTime, rootStart)\<close>.
\<close>

definition gc_suspend :: "'w env \<Rightarrow> GcReason \<Rightarrow> (GcMode \<times> u4 \<times> u4, 'w) prog" where
  "gc_suspend E reason =
     (let gcMode = (if reason = GC_FOR_MALLOC then GC_PARTIAL else GC_FULL) in
      thenM (modifyM (\<lambda>s. s\<lparr>gcRunning := True\<rparr>))
     (thenM (callM E (dvmLockMutex HeapWorkerLock))
     (bindM (callM E dvmGetRelativeTimeMsec) (\<lambda>rootSuspend.
      thenM (callM E dvmSuspendAllThreads)
     (bindM (callM E dvmGetRelativeTimeMsec) (\<lambda>rootStart.
      returnM (gcMode, rootStart - rootSuspend, rootStart)))))))"

text \<open>
  Raising the priority of the collecting thread. It returns \<open>oldThreadPriority\<close>. The
  source clears \<open>errno\<close> before \<open>getpriority\<close> and reads it after.
\<close>

definition gc_elevate_priority :: "'w env \<Rightarrow> GcReason \<Rightarrow> (u4, 'w) prog" where
  "gc_elevate_priority E reason =
     (if reason \<noteq> GC_CONCURRENT then
        bindM (callM E getpriority) (\<lambda>priorityResult.
        bindM (queryM E errno) (\<lambda>err.
        if err \<noteq> 0 then
          thenM (logM LOGI_HEAP ''getpriority(self) failed: %s\<newline>'' [Strerror err])
                (returnM kInvalidPriority)
        else if ANDROID_PRIORITY_NORMAL E <s priorityResult then
          thenM (whenM (ANDROID_PRIORITY_BACKGROUND E \<le>s priorityResult)
                  (bindM (queryM E dvmGetSysThreadId) (\<lambda>tid.
                   callM E (set_sched_policy tid SP_FOREGROUND))))
         (bindM (callM E (setpriority (ANDROID_PRIORITY_NORMAL E))) (\<lambda>rc.
          if rc \<noteq> 0 then
            thenM (logM LOGI_HEAP ''Unable to elevate priority from %d to %d\<newline>''
                     [Num priorityResult, Num (ANDROID_PRIORITY_NORMAL E)])
                  (returnM kInvalidPriority)
          else
            thenM (logM LOGD_HEAP ''Elevating priority from %d to %d\<newline>''
                     [Num priorityResult, Num (ANDROID_PRIORITY_NORMAL E)])
                  (returnM priorityResult)))
        else returnM kInvalidPriority))
      else returnM kInvalidPriority)"

text \<open>
  From the check of the worker thread to the marking of the roots and, for a concurrent
  collection, the release of the mutators. It returns \<open>rootEnd\<close>.
\<close>

definition gc_mark_roots :: "'w env \<Rightarrow> GcReason \<Rightarrow> GcMode \<Rightarrow> (u4, 'w) prog" where
  "gc_mark_roots E reason gcMode =
     thenM (checkM E dvmAssertHeapWorkerThreadRunning)
    (thenM (callM E (dvmLockMutex HeapWorkerListLock))
    (thenM (bindM getM (\<lambda>s. whenM (preVerify s)
              (thenM (logM LOGV_HEAP ''Verifying roots and heap before GC'' [])
                     (verifyRootsAndHeap E))))
    (thenM (engineM E dvmMethodTraceGCBegin)
    (bindM (engineM E (dvmHeapBeginMarkStep gcMode)) (\<lambda>ok.
     if ok = 0 then
       thenM (logM LOGE_HEAP ''dvmHeapBeginMarkStep failed; aborting\<newline>'' []) abortM
     else
       thenM (logM LOGD_HEAP ''Marking...'' [])
      (thenM (engineM E dvmHeapMarkRootSet)
      (thenM (modifyM (\<lambda>s. s\<lparr>softReferences := NULL, weakReferences := NULL,
                               phantomReferences := NULL\<rparr>))
             (if reason = GC_CONCURRENT then
                bindM (callM E dvmGetRelativeTimeMsec) (\<lambda>rootEnd.
                thenM (engineM E dvmClearCardTable)
               (thenM (dvmUnlockHeap E)
               (thenM (engineM E dvmResumeAllThreads)
                      (returnM rootEnd))))
              else returnM (uninitialised E)))))))))"

text \<open>
  Tracing and, for a concurrent collection, the second suspension with the re-marking.
  It returns \<open>(dirtySuspend, dirtyStart)\<close>.
\<close>

definition gc_trace :: "'w env \<Rightarrow> GcReason \<Rightarrow> (u4 \<times> u4, 'w) prog" where
  "gc_trace E reason =
     thenM (logM LOGD_HEAP ''Recursing...'' [])
    (thenM (engineM E dvmHeapScanMarkedObjects)
           (if reason = GC_CONCURRENT then
              thenM (dvmLockHeap E)
             (bindM (callM E dvmGetRelativeTimeMsec) (\<lambda>dirtySuspend.
              thenM (callM E dvmSuspendAllThreads)
             (bindM (callM E dvmGetRelativeTimeMsec) (\<lambda>dirtyStart.
              thenM (engineM E dvmHeapReMarkRootSet)
             (thenM (bindM getM (\<lambda>s. whenM (verifyCardTable s) (checkM E dvmVerifyCardTable)))
             (thenM (engineM E dvmHeapReScanMarkedObjects)
                    (returnM (dirtySuspend, dirtyStart))))))))
            else returnM (uninitialised E, uninitialised E)))"

text \<open>
  Reference processing and the sweep. It returns
  \<open>(dirtyEnd, numObjectsFreed, numBytesFreed)\<close>.
\<close>

definition gc_sweep ::
  "'w env \<Rightarrow> bool \<Rightarrow> GcReason \<Rightarrow> GcMode \<Rightarrow> (u4 \<times> size_t \<times> size_t, 'w) prog" where
  "gc_sweep E clearSoftRefs reason gcMode =
     thenM (engineM E (dvmHeapProcessReferences clearSoftRefs))
    (thenM (whenM (WITH_JIT E) (engineM E dvmCompilerPerformSafePointChecks))
    (thenM (logM LOGD_HEAP ''Sweeping...'' [])
    (thenM (engineM E dvmHeapSweepSystemWeaks)
    (thenM (engineM E dvmHeapSourceSwapBitmaps)
    (thenM (bindM getM (\<lambda>s. whenM (postVerify s)
              (thenM (logM LOGV_HEAP ''Verifying roots and heap after GC'' [])
                     (verifyRootsAndHeap E))))
    (bindM (if reason = GC_CONCURRENT then
              bindM (callM E dvmGetRelativeTimeMsec) (\<lambda>dirtyEnd.
              thenM (dvmUnlockHeap E)
             (thenM (engineM E dvmResumeAllThreads)
                    (returnM dirtyEnd)))
            else returnM (uninitialised E)) (\<lambda>dirtyEnd.
     bindM getM (\<lambda>s.
     thenM (engineM E (dvmHeapSweepUnmarkedObjects gcMode (reason = GC_CONCURRENT)))
    (thenM (logM LOGD_HEAP ''Cleaning up...'' [])
    (thenM (engineM E dvmHeapFinishMarkStep)
    (thenM (whenM (reason = GC_CONCURRENT) (dvmLockHeap E))
    (thenM (logM LOGD_HEAP ''Done.'' [])
           (returnM (dirtyEnd, fst (swept E (world s)), snd (swept E (world s))))))))))))))))"

text \<open>
  Resizing, the end of the cycle and the final resumption. It returns
  \<open>(currAllocated, currFootprint, dirtyEnd)\<close>.
\<close>

definition gc_finish ::
  "'w env \<Rightarrow> GcReason \<Rightarrow> u4 \<Rightarrow> u4 \<Rightarrow> (size_t \<times> size_t \<times> u4, 'w) prog" where
  "gc_finish E reason oldThreadPriority dirtyEnd =
     thenM (engineM E dvmHeapSourceGrowForUtilization)
    (bindM (queryM E (dvmHeapSourceGetValue HS_BYTES_ALLOCATED)) (\<lambda>currAllocated.
     bindM (queryM E (dvmHeapSourceGetValue HS_FOOTPRINT)) (\<lambda>currFootprint.
     thenM (callM E (dvmScheduleHeapSourceTrim 5))
    (thenM (engineM E dvmMethodTraceGCEnd)
    (thenM (logM LOGV_HEAP ''GC finished'' [])
    (thenM (modifyM (\<lambda>s. s\<lparr>gcRunning := False\<rparr>))
    (thenM (logM LOGV_HEAP ''Resuming threads'' [])
    (thenM (callM E (dvmUnlockMutex HeapWorkerListLock))
    (thenM (callM E (dvmUnlockMutex HeapWorkerLock))
    (thenM (whenM (reason = GC_CONCURRENT) (callM E dvmBroadcastCond))
           (if reason \<noteq> GC_CONCURRENT then
              bindM (callM E dvmGetRelativeTimeMsec) (\<lambda>dirtyEnd.
              thenM (engineM E dvmResumeAllThreads)
             (thenM (whenM (oldThreadPriority \<noteq> kInvalidPriority)
                      (thenM (bindM (callM E (setpriority oldThreadPriority)) (\<lambda>rc.
                              if rc \<noteq> 0 then
                                bindM (queryM E errno) (\<lambda>err.
                                logM LOGW_HEAP ''Unable to reset priority to %d: %s\<newline>''
                                  [Num oldThreadPriority, Strerror err])
                              else
                                logM LOGD_HEAP ''Reset priority to %d\<newline>''
                                  [Num oldThreadPriority]))
                             (whenM (ANDROID_PRIORITY_BACKGROUND E \<le>s oldThreadPriority)
                                (bindM (queryM E dvmGetSysThreadId) (\<lambda>tid.
                                 callM E (set_sched_policy tid SP_BACKGROUND))))))
                    (returnM (currAllocated, currFootprint, dirtyEnd))))
            else returnM (currAllocated, currFootprint, dirtyEnd))))))))))))"

text \<open>
  The line of the log that ends a collection: one format for a collection with a single
  pause, one for a concurrent collection with its two pauses.
\<close>

definition gc_report ::
  "'w env \<Rightarrow> GcReason \<Rightarrow> u4 \<Rightarrow> u4 \<Rightarrow> u4 \<Rightarrow> u4 \<Rightarrow> u4 \<Rightarrow> u4 \<Rightarrow> size_t \<Rightarrow> size_t \<Rightarrow> size_t
     \<Rightarrow> (unit, 'w) prog" where
  "gc_report E reason rootSuspendTime rootStart rootEnd dirtySuspend dirtyStart dirtyEnd
       numBytesFreed currAllocated currFootprint =
     (let percentFree = 100 - float_percent E currAllocated currFootprint in
      if reason \<noteq> GC_CONCURRENT then
        (let markSweepTime = dirtyEnd - rootStart;
             isSmall = (numBytesFreed > 0 \<and> numBytesFreed < 1024);
             totalTime = rootSuspendTime + markSweepTime
         in logM LOGD ''%s freed %s%zdK, %d%% free %zdK/%zdK, paused %ums''
              [Str (GcReasonStr reason),
               Str (if isSmall then ''<'' else []),
               Num (if numBytesFreed \<noteq> 0 then max (numBytesFreed div 1024) 1 else 0),
               Num percentFree,
               Num (currAllocated div 1024), Num (currFootprint div 1024),
               Num markSweepTime])
      else
        (let rootTime = rootEnd - rootStart;
             dirtySuspendTime = dirtyStart - dirtySuspend;
             dirtyTime = dirtyEnd - dirtyStart;
             isSmall = (numBytesFreed > 0 \<and> numBytesFreed < 1024);
             totalTime = rootSuspendTime + rootTime + dirtySuspendTime + dirtyTime
         in logM LOGD ''%s freed %s%zdK, %d%% free %zdK/%zdK, paused %ums+%ums''
              [Str (GcReasonStr reason),
               Str (if isSmall then ''<'' else []),
               Num (if numBytesFreed \<noteq> 0 then max (numBytesFreed div 1024) 1 else 0),
               Num percentFree,
               Num (currAllocated div 1024), Num (currFootprint div 1024),
               Num rootTime, Num dirtyTime]))"

definition gc_ddm :: "'w env \<Rightarrow> (unit, 'w) prog" where
  "gc_ddm E =
     thenM (bindM getM (\<lambda>s. whenM (ddmHpifWhen s \<noteq> 0)
              (thenM (logM LOGD_HEAP ''Sending VM heap info to DDM\<newline>'' [])
                     (callM E (dvmDdmSendHeapInfo (ddmHpifWhen s) False)))))
    (thenM (bindM getM (\<lambda>s. whenM (ddmHpsgWhen s \<noteq> 0)
              (thenM (logM LOGD_HEAP ''Dumping VM heap to DDM\<newline>'' [])
                     (callM E (dvmDdmSendHeapSegments False False)))))
           (bindM getM (\<lambda>s. whenM (ddmNhsgWhen s \<noteq> 0)
              (thenM (logM LOGD_HEAP ''Dumping native heap to DDM\<newline>'' [])
                     (callM E (dvmDdmSendHeapSegments False True))))))"

text \<open>The cycle proper: everything after the test of \<open>gcRunning\<close>.\<close>

definition gc_cycle :: "'w env \<Rightarrow> bool \<Rightarrow> GcReason \<Rightarrow> (unit, 'w) prog" where
  "gc_cycle E clearSoftRefs reason =
     bindM (gc_suspend E reason) (\<lambda>(gcMode, rootSuspendTime, rootStart).
     bindM (gc_elevate_priority E reason) (\<lambda>oldThreadPriority.
     bindM (gc_mark_roots E reason gcMode) (\<lambda>rootEnd.
     bindM (gc_trace E reason) (\<lambda>(dirtySuspend, dirtyStart).
     bindM (gc_sweep E clearSoftRefs reason gcMode) (\<lambda>(dirtyEnd, numObjectsFreed, numBytesFreed).
     bindM (gc_finish E reason oldThreadPriority dirtyEnd) (\<lambda>(currAllocated, currFootprint, dirtyEnd).
     thenM (gc_report E reason rootSuspendTime rootStart rootEnd dirtySuspend dirtyStart
              dirtyEnd numBytesFreed currAllocated currFootprint)
           (gc_ddm E)))))))"

definition dvmCollectGarbageInternal :: "'w env \<Rightarrow> bool \<Rightarrow> GcReason \<Rightarrow> (unit, 'w) prog" where
  "dvmCollectGarbageInternal E clearSoftRefs reason =
     bindM getM (\<lambda>s.
     if gcRunning s then
       thenM (logM LOGW_HEAP ''Attempted recursive GC\<newline>'' []) (returnM ())
     else gc_cycle E clearSoftRefs reason)"

subsection \<open>tryMalloc\<close>

definition gcForMalloc :: "'w env \<Rightarrow> bool \<Rightarrow> (unit, 'w) prog" where
  "gcForMalloc E collectSoftReferences =
     thenM (bindM getM (\<lambda>s. whenM (enabled (allocProf s))
              (thenM (modifyM (\<lambda>s. s\<lparr>allocProf :=
                         (allocProf s)\<lparr>gcCount := gcCount (allocProf s) + 1\<rparr>\<rparr>))
                     (whenM (dvmThreadSelf E)
                        (modifyM (\<lambda>s. s\<lparr>self_allocProf :=
                           (self_allocProf s)\<lparr>gcCount := gcCount (self_allocProf s) + 1\<rparr>\<rparr>))))))
    (thenM (logM LOGD_HEAP ''dvmMalloc initiating GC%s\<newline>''
              [Str (if collectSoftReferences then ''(collect SoftReferences)'' else [])])
           (dvmCollectGarbageInternal E collectSoftReferences GC_FOR_MALLOC))"

text \<open>From the label \<open>collect_soft_refs\<close> to the end of the function.\<close>

definition tryMalloc_collect_soft_refs :: "'w env \<Rightarrow> size_t \<Rightarrow> (obj, 'w) prog" where
  "tryMalloc_collect_soft_refs E size' =
     thenM (logM LOGI_HEAP ''Forcing collection of SoftReferences for %zu-byte allocation\<newline>''
              [Num size'])
    (thenM (gcForMalloc E True)
    (bindM (callM E (dvmHeapSourceAllocAndGrow size')) (\<lambda>ptr.
     if ptr \<noteq> NULL then returnM ptr
     else
       thenM (logM LOGE_HEAP ''Out of memory on a %zd-byte allocation.\<newline>'' [Num size'])
      (thenM (queryM E dvmDumpThread)
             (returnM NULL)))))"

text \<open>From the foreground collection to the end of the function.\<close>

definition tryMalloc_foreground_gc :: "'w env \<Rightarrow> size_t \<Rightarrow> (obj, 'w) prog" where
  "tryMalloc_foreground_gc E size' =
     thenM (gcForMalloc E False)
    (bindM (callM E (dvmHeapSourceAlloc size')) (\<lambda>ptr.
     if ptr \<noteq> NULL then returnM ptr
     else
       bindM (callM E (dvmHeapSourceAllocAndGrow size')) (\<lambda>ptr.
       if ptr \<noteq> NULL then
         bindM (queryM E dvmHeapSourceGetIdealFootprint) (\<lambda>newHeapSize.
         thenM (logM LOGI_HEAP
                  ''Grow heap (frag case) to %zu.%03zuMB for %zu-byte allocation\<newline>''
                  [FRACTIONAL_MB newHeapSize, Num size'])
               (returnM ptr))
       else tryMalloc_collect_soft_refs E size')))"

definition tryMalloc :: "'w env \<Rightarrow> size_t \<Rightarrow> (obj, 'w) prog" where
  "tryMalloc E size' =
     bindM getM (\<lambda>s.
     if size' \<ge> heapGrowthLimit s then
       thenM (logM LOGW_HEAP
                ''dvmMalloc(%zu/0x%08zx): someone's allocating a huge buffer\<newline>''
                [Num size', Num size'])
             (tryMalloc_collect_soft_refs E size')
     else
       bindM (callM E (dvmHeapSourceAlloc size')) (\<lambda>ptr.
       if ptr \<noteq> NULL then returnM ptr
       else
         bindM getM (\<lambda>s.
         if gcRunning s then
           thenM (dvmWaitForConcurrentGcToComplete E)
          (bindM (callM E (dvmHeapSourceAlloc size')) (\<lambda>ptr.
           if ptr \<noteq> NULL then returnM ptr
           else tryMalloc_foreground_gc E size'))
         else tryMalloc_foreground_gc E size')))"

subsection \<open>throwOOME and dvmMalloc\<close>

definition throwOOME :: "'w env \<Rightarrow> (unit, 'w) prog" where
  "throwOOME E =
     whenM (dvmThreadSelf E)
       (bindM (queryM E dvmIsOnThreadList) (\<lambda>onList.
        bindM getM (\<lambda>s.
        thenM (if onList \<noteq> 0 \<and> \<not> self_throwingOOME s then
                 thenM (modifyM (\<lambda>s. s\<lparr>self_throwingOOME := True\<rparr>))
                       (engineM E (dvmThrowException ''Ljava/lang/OutOfMemoryError;'' None))
               else callM E (dvmSetException (outOfMemoryObj s)))
              (modifyM (\<lambda>s. s\<lparr>self_throwingOOME := False\<rparr>)))))"

text \<open>
  \<open>dvmMalloc\<close> in three pieces: the lock and \<open>tryMalloc\<close>; what is recorded while
  the heap lock is held, given the pointer (the finalizable reference and the profile
  counters); what is done after the lock is released (tracking or throwing).
\<close>

definition dvmMalloc_locked :: "'w env \<Rightarrow> size_t \<Rightarrow> u4 \<Rightarrow> obj \<Rightarrow> (unit, 'w) prog" where
  "dvmMalloc_locked E size' flags ptr =
     (if ptr \<noteq> NULL then
        thenM (whenM (flags AND ALLOC_FINALIZABLE E \<noteq> 0)
                (bindM (dvmHeapAddRefToLargeTable E FinalizableRefs ptr) (\<lambda>ok.
                 whenM (\<not> ok)
                   (thenM (logM LOGE_HEAP
                             ''dvmMalloc(): no room for any more finalizable objects\<newline>'' [])
                          (abortM :: (unit, 'w) prog)))))
              (bindM getM (\<lambda>s. whenM (enabled (allocProf s))
                 (thenM (modifyM (\<lambda>s. s\<lparr>allocProf := (allocProf s)
                           \<lparr>allocCount := allocCount (allocProf s) + 1,
                            allocSize := allocSize (allocProf s) + size'\<rparr>\<rparr>))
                        (whenM (dvmThreadSelf E)
                           (modifyM (\<lambda>s. s\<lparr>self_allocProf := (self_allocProf s)
                              \<lparr>allocCount := allocCount (self_allocProf s) + 1,
                               allocSize := allocSize (self_allocProf s) + size'\<rparr>\<rparr>))))))
      else
        bindM getM (\<lambda>s. whenM (enabled (allocProf s))
          (thenM (modifyM (\<lambda>s. s\<lparr>allocProf := (allocProf s)
                    \<lparr>failedAllocCount := failedAllocCount (allocProf s) + 1,
                     failedAllocSize := failedAllocSize (allocProf s) + size'\<rparr>\<rparr>))
                 (whenM (dvmThreadSelf E)
                    (modifyM (\<lambda>s. s\<lparr>self_allocProf := (self_allocProf s)
                       \<lparr>failedAllocCount := failedAllocCount (self_allocProf s) + 1,
                        failedAllocSize := failedAllocSize (self_allocProf s) + size'\<rparr>\<rparr>))))))"

definition dvmMalloc_unlocked :: "'w env \<Rightarrow> u4 \<Rightarrow> obj \<Rightarrow> (obj, 'w) prog" where
  "dvmMalloc_unlocked E flags ptr =
     thenM (if ptr \<noteq> NULL then
              whenM (flags AND ALLOC_DONT_TRACK E = 0) (callM E (dvmAddTrackedAlloc ptr))
            else throwOOME E)
           (returnM ptr)"

definition dvmMalloc :: "'w env \<Rightarrow> size_t \<Rightarrow> u4 \<Rightarrow> (obj, 'w) prog" where
  "dvmMalloc E size' flags =
     thenM (dvmLockHeap E)
    (bindM (tryMalloc E size') (\<lambda>ptr.
     thenM (dvmMalloc_locked E size' flags ptr)
    (thenM (dvmUnlockHeap E)
           (dvmMalloc_unlocked E flags ptr))))"

subsection \<open>The ladder of the spec\<close>

text \<open>
  The second definition of the allocation ladder follows the words of the spec, to be
  compared with \<open>tryMalloc\<close>: a list of steps, tried in order, the first pointer that
  is not \<open>NULL\<close> being the result and \<open>NULL\<close> the result when every step has
  failed. A step that aborts, or never returns, ends the ladder there.
\<close>

fun first_non_null :: "(obj, 'w) prog list \<Rightarrow> (obj, 'w) prog" where
  "first_non_null [] = returnM NULL"
| "first_non_null (step # steps) =
     bindM step (\<lambda>ptr. if ptr \<noteq> NULL then returnM ptr else first_non_null steps)"

definition ladder_alloc :: "'w env \<Rightarrow> size_t \<Rightarrow> (obj, 'w) prog" where
  "ladder_alloc E size' = callM E (dvmHeapSourceAlloc size')"

definition ladder_wait_for_gc :: "'w env \<Rightarrow> size_t \<Rightarrow> (obj, 'w) prog" where
  "ladder_wait_for_gc E size' =
     bindM getM (\<lambda>s.
     if gcRunning s then
       thenM (dvmWaitForConcurrentGcToComplete E) (callM E (dvmHeapSourceAlloc size'))
     else returnM NULL)"

text \<open>
  The collection of steps 3 and 5. The spec invokes the driver with the reason
  \<open>FOR_MALLOC\<close> and a value of \<open>clear_soft_refs\<close>, and means that a collection
  runs: the step is the cycle of the collector itself, \<open>gc_cycle\<close>, not the driver's
  early return. The collection is counted in the allocation profile when profiling is
  on, as \<open>gcForMalloc\<close> counts it; the spec's ladder says nothing of the profile.
\<close>

definition count_collection :: "'w env \<Rightarrow> (unit, 'w) prog" where
  "count_collection E =
     bindM getM (\<lambda>s. whenM (enabled (allocProf s))
       (thenM (modifyM (\<lambda>s. s\<lparr>allocProf :=
                  (allocProf s)\<lparr>gcCount := gcCount (allocProf s) + 1\<rparr>\<rparr>))
              (whenM (dvmThreadSelf E)
                 (modifyM (\<lambda>s. s\<lparr>self_allocProf :=
                    (self_allocProf s)\<lparr>gcCount := gcCount (self_allocProf s) + 1\<rparr>\<rparr>)))))"

definition collection_for_malloc :: "'w env \<Rightarrow> bool \<Rightarrow> (unit, 'w) prog" where
  "collection_for_malloc E clear_soft_refs =
     thenM (count_collection E) (gc_cycle E clear_soft_refs GC_FOR_MALLOC)"

definition ladder_foreground_gc :: "'w env \<Rightarrow> size_t \<Rightarrow> (obj, 'w) prog" where
  "ladder_foreground_gc E size' =
     thenM (collection_for_malloc E False) (callM E (dvmHeapSourceAlloc size'))"

definition ladder_alloc_and_grow :: "'w env \<Rightarrow> size_t \<Rightarrow> (obj, 'w) prog" where
  "ladder_alloc_and_grow E size' = callM E (dvmHeapSourceAllocAndGrow size')"

definition ladder_soft_refs :: "'w env \<Rightarrow> size_t \<Rightarrow> (obj, 'w) prog" where
  "ladder_soft_refs E size' =
     thenM (collection_for_malloc E True) (callM E (dvmHeapSourceAllocAndGrow size'))"

definition try_alloc_ladder :: "'w env \<Rightarrow> size_t \<Rightarrow> (obj, 'w) prog" where
  "try_alloc_ladder E size' =
     first_non_null
       [ladder_alloc E size', ladder_wait_for_gc E size', ladder_foreground_gc E size',
        ladder_alloc_and_grow E size', ladder_soft_refs E size']"

text \<open>
  The spec's ladder says nothing of the log, of the thread dump before \<open>NULL\<close> is
  returned, or of the read of the footprint that is only logged. These are the
  diagnostics; none of them changes the globals. Two runs are compared on what they
  return, the globals they leave and the events that are no diagnostics.
\<close>

definition diagnostic :: "event \<Rightarrow> bool" where
  "diagnostic e =
     (case e of
        Log m fmt args \<Rightarrow> True
      | Call c \<Rightarrow> c = dvmDumpThread \<or> c = dvmHeapSourceGetIdealFootprint)"

definition observe ::
  "('a outcome \<times> 'w vm \<times> event list) option \<Rightarrow> ('a outcome \<times> 'w vm \<times> event list) option" where
  "observe r = map_option (\<lambda>(x, s, out). (x, s, filter (\<lambda>e. \<not> diagnostic e) out)) r"

text \<open>
  Sequencing as it shows in what is observed: \<open>observe\<close> of a \<open>bindM\<close> is the
  \<open>obs_bind\<close> of what is observed of its parts.
\<close>

definition prepend_out ::
  "event list \<Rightarrow> ('a outcome \<times> 'w vm \<times> event list) option
     \<Rightarrow> ('a outcome \<times> 'w vm \<times> event list) option" where
  "prepend_out out1 r = map_option (\<lambda>(x, s, out2). (x, s, out1 @ out2)) r"

definition obs_bind ::
  "('a outcome \<times> 'w vm \<times> event list) option \<Rightarrow>
   ('a \<Rightarrow> 'w vm \<Rightarrow> ('b outcome \<times> 'w vm \<times> event list) option) \<Rightarrow>
   ('b outcome \<times> 'w vm \<times> event list) option" where
  "obs_bind r k =
     (case r of
        None \<Rightarrow> None
      | Some (Aborted, s1, out1) \<Rightarrow> Some (Aborted, s1, out1)
      | Some (Returned x, s1, out1) \<Rightarrow> prepend_out out1 (k x s1))"

subsection \<open>The steps of a run\<close>

text \<open>
  The events that make the steps of the ladder: the two allocations of the heap source,
  the wait on the condition variable, and what a collection does, that is the suspension
  and the resumption of the threads and the phases of the mark-sweep engine.
\<close>

definition ladder_event :: "event \<Rightarrow> bool" where
  "ladder_event e =
     (case e of
        Log m fmt args \<Rightarrow> False
      | Call c \<Rightarrow>
          (case c of
             dvmHeapSourceAlloc n \<Rightarrow> True
           | dvmHeapSourceAllocAndGrow n \<Rightarrow> True
           | dvmWaitCond \<Rightarrow> True
           | dvmSuspendAllThreads \<Rightarrow> True
           | dvmResumeAllThreads \<Rightarrow> True
           | dvmHeapBeginMarkStep m \<Rightarrow> True
           | dvmHeapMarkRootSet \<Rightarrow> True
           | dvmClearCardTable \<Rightarrow> True
           | dvmHeapScanMarkedObjects \<Rightarrow> True
           | dvmHeapReMarkRootSet \<Rightarrow> True
           | dvmHeapReScanMarkedObjects \<Rightarrow> True
           | dvmHeapProcessReferences clear \<Rightarrow> True
           | dvmHeapSweepSystemWeaks \<Rightarrow> True
           | dvmHeapSourceSwapBitmaps \<Rightarrow> True
           | dvmHeapSweepUnmarkedObjects m concurrent \<Rightarrow> True
           | dvmHeapFinishMarkStep \<Rightarrow> True
           | dvmHeapSourceGrowForUtilization \<Rightarrow> True
           | _ \<Rightarrow> False))"

text \<open>
  A collection that stops the world, as the spec lists its phases: the threads are
  suspended, the partial mark step begins, the roots are marked and traced, the
  references are processed with the given \<open>clear_soft_refs\<close>, the weak tables and the
  unmarked objects are swept with the bitmaps swapped in between, the mark step ends, the
  heap is resized and the threads are resumed.
\<close>

definition collection_phases :: "bool \<Rightarrow> event list" where
  "collection_phases clear_soft_refs =
     [Call dvmSuspendAllThreads, Call (dvmHeapBeginMarkStep GC_PARTIAL),
      Call dvmHeapMarkRootSet, Call dvmHeapScanMarkedObjects,
      Call (dvmHeapProcessReferences clear_soft_refs), Call dvmHeapSweepSystemWeaks,
      Call dvmHeapSourceSwapBitmaps, Call (dvmHeapSweepUnmarkedObjects GC_PARTIAL False),
      Call dvmHeapFinishMarkStep, Call dvmHeapSourceGrowForUtilization,
      Call dvmResumeAllThreads]"

text \<open>
  The steps of a run that goes through the whole ladder for a request of \<open>size'\<close>
  bytes, every step failing: \<open>waiting\<close> says whether the collector was running
  after the first allocation, and \<open>Suc k\<close> is then the number of wakeups.
\<close>

definition whole_ladder :: "size_t \<Rightarrow> bool \<Rightarrow> nat \<Rightarrow> event list" where
  "whole_ladder size' waiting k =
     Call (dvmHeapSourceAlloc size') #
     (if waiting
      then replicate (Suc k) (Call dvmWaitCond) @ [Call (dvmHeapSourceAlloc size')]
      else []) @
     collection_phases False @
     [Call (dvmHeapSourceAlloc size'), Call (dvmHeapSourceAllocAndGrow size')] @
     collection_phases True @ [Call (dvmHeapSourceAllocAndGrow size')]"

text \<open>
  \<open>gcRunning\<close> is written by the collector alone, under the heap lock: of what the
  environment does, only the wait on the condition variable, during which the concurrent
  collector finishes, changes it.
\<close>

definition gc_flag_owned :: "'w env \<Rightarrow> bool" where
  "gc_flag_owned E = (\<forall>c s. c \<noteq> dvmWaitCond \<longrightarrow> gcRunning (vm_eff E c s) = gcRunning s)"

subsection \<open>Wakeups and polls\<close>

text \<open>
  The globals after \<open>n\<close> turns of the loop of \<open>dvmWaitForConcurrentGcToComplete\<close>,
  that is after \<open>n\<close> wakeups, and the events of these turns.
\<close>

fun wakeups :: "'w env \<Rightarrow> nat \<Rightarrow> 'w vm \<Rightarrow> 'w vm \<times> event list" where
  "wakeups E 0 s = (s, [])"
| "wakeups E (Suc n) s =
     (case wait_body E s of
        Some (r, s1, out1) \<Rightarrow> (case wakeups E n s1 of (s2, out2) \<Rightarrow> (s2, out1 @ out2))
      | None \<Rightarrow> (s, []))"

text \<open>
  The worker thread calls \<open>dvmGetNextHeapWorkerObject\<close> again and again, passing the
  same \<open>op\<close> variable. \<open>worker_polls E n op s\<close> is what the first \<open>n\<close> calls return,
  up to the first \<open>NULL\<close>, when nothing else touches the tables in between.
\<close>

fun worker_polls ::
  "'w env \<Rightarrow> nat \<Rightarrow> HeapWorkerOperation \<Rightarrow> 'w vm \<Rightarrow> (obj \<times> HeapWorkerOperation) list" where
  "worker_polls E 0 op s = []"
| "worker_polls E (Suc n) op s =
     (case dvmGetNextHeapWorkerObject E op s of
        Some (Returned (obj, op'), s', out) \<Rightarrow>
          (if obj = NULL then [] else (obj, op') # worker_polls E n op' s')
      | _ \<Rightarrow> [])"

text \<open>The two ways an \<open>OutOfMemoryError\<close> is set on the calling thread.\<close>

definition oome_set :: "'w vm \<Rightarrow> event \<Rightarrow> bool" where
  "oome_set s e =
     (e = Call (dvmThrowException ''Ljava/lang/OutOfMemoryError;'' None) \<or>
      e = Call (dvmSetException (outOfMemoryObj s)))"

subsection \<open>A small heap for the examples\<close>

text \<open>
  An environment and a state on which the programs can be run. The world is the number of
  bytes the heap source can still hand out: an allocation succeeds, at address 4096, when
  the request fits. Clearing the soft references frees 32 bytes. A thread that waits for
  the concurrent collector is woken twice while the collector is still running, and the
  third time when it has finished.
\<close>

definition demo_env :: "nat env" where
  "demo_env =
     \<lparr>ret = (\<lambda>c w. case c of
                dvmHeapSourceAlloc n \<Rightarrow> if unat n \<le> w then 4096 else NULL
              | dvmHeapSourceAllocAndGrow n \<Rightarrow> if unat n \<le> w then 4096 else NULL
              | dvmHeapBeginMarkStep m \<Rightarrow> 1
              | dvmIsOnThreadList \<Rightarrow> 1
              | _ \<Rightarrow> 0),
      eff = (\<lambda>c w. case c of
                dvmHeapSourceAlloc n \<Rightarrow> if unat n \<le> w then w - unat n else w
              | dvmHeapSourceAllocAndGrow n \<Rightarrow> if unat n \<le> w then w - unat n else w
              | _ \<Rightarrow> w),
      vm_eff = (\<lambda>c s. case c of
                dvmWaitCond \<Rightarrow> if world s < 2 then s\<lparr>world := world s + 1\<rparr>
                               else s\<lparr>gcRunning := False\<rparr>
              | dvmHeapProcessReferences clear \<Rightarrow> if clear then s\<lparr>world := world s + 32\<rparr> else s
              | _ \<Rightarrow> s),
      aborts = (\<lambda>c w. False),
      swept = (\<lambda>w. (3, 700)),
      largeTableHasRoom = (\<lambda>w. True),
      float_percent = (\<lambda>a f. 0),
      dvmThreadSelf = True,
      uninitialised = 0,
      ALLOC_DONT_TRACK = 1,
      ALLOC_FINALIZABLE = 2,
      THREAD_VMWAIT = 8,
      ANDROID_PRIORITY_NORMAL = 0,
      ANDROID_PRIORITY_BACKGROUND = 10,
      WITH_JIT = False\<rparr>"

definition demo_vm :: "nat vm" where
  "demo_vm =
     \<lparr>heapGrowthLimit = 1024,
      allocProf = \<lparr>enabled = False, allocCount = 0, allocSize = 0, failedAllocCount = 0,
                   failedAllocSize = 0, gcCount = 0\<rparr>,
      preVerify = False, postVerify = False, verifyCardTable = False,
      outOfMemoryObj = 8192,
      gcRunning = False,
      finalizableRefs = [], pendingFinalizationRefs = [], referenceOperations = [],
      softReferences = NULL, weakReferences = NULL, phantomReferences = NULL,
      ddmHpifWhen = 0, ddmHpsgWhen = 0, ddmNhsgWhen = 0,
      self_throwingOOME = False,
      self_allocProf = \<lparr>enabled = False, allocCount = 0, allocSize = 0, failedAllocCount = 0,
                        failedAllocSize = 0, gcCount = 0\<rparr>,
      world = 0\<rparr>"

section \<open>What the programs do\<close>

subsection \<open>Unfolding and running the programs\<close>

lemmas monad_defs = returnM_def bindM_def thenM_def whenM_def getM_def modifyM_def logM_def
  callM_def queryM_def engineM_def checkM_def abortM_def

lemmas demo_defs = demo_env_def demo_vm_def

lemma bindM_assoc: "bindM (bindM m f) g = bindM m (\<lambda>x. bindM (f x) g)"
  by (auto simp: bindM_def fun_eq_iff split: option.splits outcome.splits prod.splits)

lemma bindM_Returned:
  "m s = Some (Returned x, s1, out1) \<Longrightarrow> bindM m f s = prepend_out out1 (f x s1)"
  by (cases "f x s1") (auto simp: bindM_def prepend_out_def)

lemma bindM_returns:
  "bindM m f s = Some (Returned y, s', out) \<Longrightarrow>
   \<exists>x s1 out1 out2. m s = Some (Returned x, s1, out1) \<and>
      f x s1 = Some (Returned y, s', out2) \<and> out = out1 @ out2"
  by (auto simp: bindM_def split: option.splits outcome.splits prod.splits)

subsection \<open>dvmIsValidObject\<close>

lemma aligned8: "(obj :: 32 word) AND 7 = 0 \<longleftrightarrow> 8 dvd unat obj"
  using and_mask_dvd_nat [of 3 obj] by (simp add: mask_eq_exp_minus_1)

text \<open>
  C9. \<open>dvmIsValidObject\<close> returns false for \<open>NULL\<close> and for a pointer that is not
  a multiple of 8, and then it makes no call at all: the heap source is not asked. It
  returns true exactly when the pointer is not \<open>NULL\<close>, is a multiple of 8, and
  \<open>dvmHeapSourceContains\<close> answers true; only then is the heap source asked, once. The
  globals are left as they were.
\<close>

theorem dvmIsValidObject_spec:
  "dvmIsValidObject E obj s =
     Some (Returned (obj \<noteq> NULL \<and> 8 dvd unat obj \<and> ret E (dvmHeapSourceContains obj) (world s) \<noteq> 0),
           s,
           if obj \<noteq> NULL \<and> 8 dvd unat obj then [Call (dvmHeapSourceContains obj)] else [])"
  by (simp add: dvmIsValidObject_def aligned8 monad_defs)

text \<open>
  Two runs: a pointer that is no multiple of 8, and one that is. The heap source of the
  small heap knows no object.
\<close>

lemma dvmIsValidObject_examples:
  "dvmIsValidObject demo_env 4100 demo_vm = Some (Returned False, demo_vm, [])"
  "dvmIsValidObject demo_env 4096 demo_vm =
     Some (Returned False, demo_vm, [Call (dvmHeapSourceContains 4096)])"
  by code_simp+

subsection \<open>The collector\<close>

text \<open>
  C3. When \<open>gcRunning\<close> is already true, \<open>dvmCollectGarbageInternal\<close> logs the
  warning and returns: the globals, \<open>gcRunning\<close> among them, are what they were, and
  the warning is the only event, so no thread is suspended and nothing is marked,
  processed, swept, swapped or resized.
\<close>

theorem dvmCollectGarbageInternal_recursive:
  "gcRunning s \<Longrightarrow>
   dvmCollectGarbageInternal E clearSoftRefs reason s =
     Some (Returned (), s, [Log LOGW_HEAP ''Attempted recursive GC\<newline>'' []])"
  by (simp add: dvmCollectGarbageInternal_def monad_defs)

theorem dvmCollectGarbageInternal_recursive_witness:
  "gcRunning (demo_vm\<lparr>gcRunning := True\<rparr>) \<and>
   dvmCollectGarbageInternal demo_env True GC_EXPLICIT (demo_vm\<lparr>gcRunning := True\<rparr>) =
     Some (Returned (), demo_vm\<lparr>gcRunning := True\<rparr>,
           [Log LOGW_HEAP ''Attempted recursive GC\<newline>'' []])"
  using dvmCollectGarbageInternal_recursive [of "demo_vm\<lparr>gcRunning := True\<rparr>" demo_env True GC_EXPLICIT]
  by simp

lemma freed_K:
  fixes n :: "32 word"
  shows "unat (if n \<noteq> 0 then max (n div 1024) 1 else 0) =
         (if unat n = 0 then 0 else if unat n < 1024 then 1 else unat n div 1024)"
proof -
  have d: "unat (n div 1024) = unat n div 1024" by (simp add: unat_div)
  have z: "n = 0 \<longleftrightarrow> unat n = 0" by (simp add: unat_eq_0)
  show ?thesis
  proof (cases "unat n < 1024")
    case True
    then have "unat (n div 1024) = 0" using d by simp
    then have "n div 1024 = 0" by (simp add: unat_eq_0)
    then show ?thesis using True z by simp
  next
    case False
    then have "1 \<le> unat (n div 1024)" using d by (simp add: Suc_le_eq div_greater_zero_iff)
    then have "1 \<le> n div 1024" by (simp add: word_le_nat_alt)
    then have "max (n div 1024) 1 = n div 1024" by (simp add: max_def)
    then show ?thesis using False d z by auto
  qed
qed

lemma isSmall_nat:
  fixes n :: "32 word"
  shows "(n > 0 \<and> n < 1024) \<longleftrightarrow> (0 < unat n \<and> unat n < 1024)"
  by (simp add: word_less_nat_alt)

text \<open>
  C8. In the line that reports a collection, in the format with one pause and in the
  format with two, the second argument is the marker and the third the freed amount in
  K. The marker is \<open><\<close> exactly when the bytes freed are more than 0 and fewer than
  1024, and the amount is then 1; the amount is 0, without marker, when nothing was
  freed, and the bytes divided by 1024, rounded down and without marker, from 1024 bytes
  on.
\<close>

theorem gc_report_freed:
  "\<exists>k tail.
     gc_report E reason rootSuspendTime rootStart rootEnd dirtySuspend dirtyStart dirtyEnd
       numBytesFreed currAllocated currFootprint s =
       Some (Returned (), s,
             [Log LOGD
                (if reason = GC_CONCURRENT
                 then ''%s freed %s%zdK, %d%% free %zdK/%zdK, paused %ums+%ums''
                 else ''%s freed %s%zdK, %d%% free %zdK/%zdK, paused %ums'')
                (Str (GcReasonStr reason) #
                 Str (if 0 < unat numBytesFreed \<and> unat numBytesFreed < 1024 then ''<'' else []) #
                 Num k # tail)]) \<and>
     unat k = (if unat numBytesFreed = 0 then 0
               else if unat numBytesFreed < 1024 then 1
               else unat numBytesFreed div 1024)"
  unfolding gc_report_def Let_def logM_def isSmall_nat
  using freed_K [of numBytesFreed] by (cases "reason = GC_CONCURRENT") auto

text \<open>
  Three runs of the report: 700 bytes freed, none, and 4096.
\<close>

lemma gc_report_examples:
  "gc_report demo_env GC_FOR_MALLOC 0 10 0 0 0 25 700 2048 4096 demo_vm =
     Some (Returned (), demo_vm,
       [Log LOGD ''%s freed %s%zdK, %d%% free %zdK/%zdK, paused %ums''
          [Str ''GC_FOR_MALLOC'', Str ''<'', Num 1, Num 100, Num 2, Num 4, Num 15]])"
  "gc_report demo_env GC_EXPLICIT 0 10 0 0 0 25 0 2048 4096 demo_vm =
     Some (Returned (), demo_vm,
       [Log LOGD ''%s freed %s%zdK, %d%% free %zdK/%zdK, paused %ums''
          [Str ''GC_EXPLICIT'', Str [], Num 0, Num 100, Num 2, Num 4, Num 15]])"
  "gc_report demo_env GC_CONCURRENT 0 10 12 20 21 25 4096 2048 4096 demo_vm =
     Some (Returned (), demo_vm,
       [Log LOGD ''%s freed %s%zdK, %d%% free %zdK/%zdK, paused %ums+%ums''
          [Str ''GC_CONCURRENT'', Str [], Num 4, Num 100, Num 2, Num 4, Num 2, Num 4]])"
  by code_simp+

subsection \<open>The worker queue\<close>

lemma poll_enqueue:
  "referenceOperations s = r # rs \<Longrightarrow> r \<noteq> NULL \<Longrightarrow>
   dvmGetNextHeapWorkerObject E op s =
     Some (Returned (r, WORKER_ENQUEUE),
           s\<lparr>referenceOperations := rs,
             world := eff E (dvmUnlockMutex HeapWorkerListLock)
                        (eff E (dvmAddTrackedAlloc r)
                          (eff E (dvmLockMutex HeapWorkerListLock) (world s)))\<rparr>,
           [Call (dvmLockMutex HeapWorkerListLock),
            Call (getNextObjectFromLargeTable ReferenceOperations),
            Call (dvmAddTrackedAlloc r),
            Call (dvmUnlockMutex HeapWorkerListLock)])"
  by (simp add: dvmGetNextHeapWorkerObject_def dvmHeapGetNextObjectFromLargeTable_def monad_defs)

lemma poll_finalize:
  "referenceOperations s = [] \<Longrightarrow> pendingFinalizationRefs s = p # ps \<Longrightarrow> p \<noteq> NULL \<Longrightarrow>
   dvmGetNextHeapWorkerObject E op s =
     Some (Returned (p, WORKER_FINALIZE),
           s\<lparr>pendingFinalizationRefs := ps,
             world := eff E (dvmUnlockMutex HeapWorkerListLock)
                        (eff E (dvmAddTrackedAlloc p)
                          (eff E (dvmLockMutex HeapWorkerListLock) (world s)))\<rparr>,
           [Call (dvmLockMutex HeapWorkerListLock),
            Call (getNextObjectFromLargeTable ReferenceOperations),
            Call (getNextObjectFromLargeTable PendingFinalizationRefs),
            Call (dvmAddTrackedAlloc p),
            Call (dvmUnlockMutex HeapWorkerListLock)])"
  by (simp add: dvmGetNextHeapWorkerObject_def dvmHeapGetNextObjectFromLargeTable_def monad_defs)

lemma poll_empty:
  "referenceOperations s = [] \<Longrightarrow> pendingFinalizationRefs s = [] \<Longrightarrow>
   dvmGetNextHeapWorkerObject E op s =
     Some (Returned (NULL, op),
           s\<lparr>world := eff E (dvmUnlockMutex HeapWorkerListLock)
                         (eff E (dvmLockMutex HeapWorkerListLock) (world s))\<rparr>,
           [Call (dvmLockMutex HeapWorkerListLock),
            Call (getNextObjectFromLargeTable ReferenceOperations),
            Call (getNextObjectFromLargeTable PendingFinalizationRefs),
            Call (dvmUnlockMutex HeapWorkerListLock)])"
  by (simp add: dvmGetNextHeapWorkerObject_def dvmHeapGetNextObjectFromLargeTable_def monad_defs)

text \<open>
  C10. When \<open>referenceOperations\<close> and \<open>pendingFinalizationRefs\<close> are both empty,
  \<open>dvmGetNextHeapWorkerObject\<close> returns \<open>NULL\<close>, leaves \<open>*op\<close> as the caller
  passed it, and does not call \<open>dvmAddTrackedAlloc\<close>: it takes the lock, looks at the
  two tables and releases the lock.
\<close>

theorem dvmGetNextHeapWorkerObject_empty:
  "referenceOperations s = [] \<Longrightarrow> pendingFinalizationRefs s = [] \<Longrightarrow>
   dvmGetNextHeapWorkerObject E op s =
     Some (Returned (NULL, op),
           s\<lparr>world := eff E (dvmUnlockMutex HeapWorkerListLock)
                         (eff E (dvmLockMutex HeapWorkerListLock) (world s))\<rparr>,
           [Call (dvmLockMutex HeapWorkerListLock),
            Call (getNextObjectFromLargeTable ReferenceOperations),
            Call (getNextObjectFromLargeTable PendingFinalizationRefs),
            Call (dvmUnlockMutex HeapWorkerListLock)])"
  by (rule poll_empty)

theorem dvmGetNextHeapWorkerObject_empty_witness:
  "referenceOperations demo_vm = [] \<and> pendingFinalizationRefs demo_vm = [] \<and>
   dvmGetNextHeapWorkerObject demo_env WORKER_ENQUEUE demo_vm =
     Some (Returned (NULL, WORKER_ENQUEUE), demo_vm,
           [Call (dvmLockMutex HeapWorkerListLock),
            Call (getNextObjectFromLargeTable ReferenceOperations),
            Call (getNextObjectFromLargeTable PendingFinalizationRefs),
            Call (dvmUnlockMutex HeapWorkerListLock)])"
proof -
  have e: "referenceOperations demo_vm = []" "pendingFinalizationRefs demo_vm = []"
    by (simp_all add: demo_vm_def)
  from dvmGetNextHeapWorkerObject_empty [OF e, of demo_env WORKER_ENQUEUE]
  show ?thesis using e by (simp add: demo_defs)
qed

lemma worker_polls_take:
  "NULL \<notin> set (referenceOperations s) \<Longrightarrow> NULL \<notin> set (pendingFinalizationRefs s) \<Longrightarrow>
   worker_polls E n op s =
     take n (map (\<lambda>r. (r, WORKER_ENQUEUE)) (referenceOperations s) @
             map (\<lambda>p. (p, WORKER_FINALIZE)) (pendingFinalizationRefs s))"
proof (induction n arbitrary: op s)
  case 0
  then show ?case by simp
next
  case (Suc n)
  show ?case
  proof (cases "referenceOperations s")
    case (Cons r rs)
    then have r: "r \<noteq> NULL" and rs: "NULL \<notin> set rs" using Suc.prems(1) by auto
    let ?s' = "s\<lparr>referenceOperations := rs,
             world := eff E (dvmUnlockMutex HeapWorkerListLock)
                        (eff E (dvmAddTrackedAlloc r)
                          (eff E (dvmLockMutex HeapWorkerListLock) (world s)))\<rparr>"
    have "worker_polls E n WORKER_ENQUEUE ?s' =
       take n (map (\<lambda>r. (r, WORKER_ENQUEUE)) (referenceOperations ?s') @
               map (\<lambda>p. (p, WORKER_FINALIZE)) (pendingFinalizationRefs ?s'))"
      using rs Suc.prems(2) by (intro Suc.IH) simp_all
    then show ?thesis
      using poll_enqueue [OF Cons r, of E op] r Cons by simp
  next
    case Nil
    show ?thesis
    proof (cases "pendingFinalizationRefs s")
      case (Cons p ps)
      then have p: "p \<noteq> NULL" and ps: "NULL \<notin> set ps" using Suc.prems(2) by auto
      let ?s' = "s\<lparr>pendingFinalizationRefs := ps,
             world := eff E (dvmUnlockMutex HeapWorkerListLock)
                        (eff E (dvmAddTrackedAlloc p)
                          (eff E (dvmLockMutex HeapWorkerListLock) (world s)))\<rparr>"
      have "worker_polls E n WORKER_FINALIZE ?s' =
         take n (map (\<lambda>r. (r, WORKER_ENQUEUE)) (referenceOperations ?s') @
                 map (\<lambda>p. (p, WORKER_FINALIZE)) (pendingFinalizationRefs ?s'))"
        using ps Nil by (intro Suc.IH) simp_all
      then show ?thesis
        using poll_finalize [OF Nil Cons p, of E op] p Cons Nil by simp
    next
      case Nil2: Nil
      show ?thesis
        using poll_empty [OF Nil Nil2, of E op] Nil Nil2 by simp
    qed
  qed
qed

text \<open>
  C4. Let neither table hold a \<open>NULL\<close> entry. When \<open>referenceOperations\<close> is not
  empty, \<open>dvmGetNextHeapWorkerObject\<close> takes its next object and sets \<open>*op\<close> to
  \<open>WORKER_ENQUEUE\<close>, and \<open>pendingFinalizationRefs\<close> is not touched. Only when
  \<open>referenceOperations\<close> is empty does it take the next object of
  \<open>pendingFinalizationRefs\<close>, with \<open>WORKER_FINALIZE\<close>. In both cases
  \<open>dvmAddTrackedAlloc\<close> is called on the object before the lock is released and the
  object returned. Hence the calls of the worker return every pending enqueue before any
  pending finalization: an object that waits in both tables is returned for its enqueue
  strictly first.
\<close>

theorem dvmGetNextHeapWorkerObject_order:
  assumes "NULL \<notin> set (referenceOperations s)" and "NULL \<notin> set (pendingFinalizationRefs s)"
  shows
   "(\<forall>r rs. referenceOperations s = r # rs \<longrightarrow>
       dvmGetNextHeapWorkerObject E op s =
         Some (Returned (r, WORKER_ENQUEUE),
               s\<lparr>referenceOperations := rs,
                 world := eff E (dvmUnlockMutex HeapWorkerListLock)
                            (eff E (dvmAddTrackedAlloc r)
                              (eff E (dvmLockMutex HeapWorkerListLock) (world s)))\<rparr>,
               [Call (dvmLockMutex HeapWorkerListLock),
                Call (getNextObjectFromLargeTable ReferenceOperations),
                Call (dvmAddTrackedAlloc r),
                Call (dvmUnlockMutex HeapWorkerListLock)])) \<and>
    (\<forall>p ps. referenceOperations s = [] \<and> pendingFinalizationRefs s = p # ps \<longrightarrow>
       dvmGetNextHeapWorkerObject E op s =
         Some (Returned (p, WORKER_FINALIZE),
               s\<lparr>pendingFinalizationRefs := ps,
                 world := eff E (dvmUnlockMutex HeapWorkerListLock)
                            (eff E (dvmAddTrackedAlloc p)
                              (eff E (dvmLockMutex HeapWorkerListLock) (world s)))\<rparr>,
               [Call (dvmLockMutex HeapWorkerListLock),
                Call (getNextObjectFromLargeTable ReferenceOperations),
                Call (getNextObjectFromLargeTable PendingFinalizationRefs),
                Call (dvmAddTrackedAlloc p),
                Call (dvmUnlockMutex HeapWorkerListLock)])) \<and>
    worker_polls E n op s =
      take n (map (\<lambda>r. (r, WORKER_ENQUEUE)) (referenceOperations s) @
              map (\<lambda>p. (p, WORKER_FINALIZE)) (pendingFinalizationRefs s))"
proof (intro conjI allI impI)
  fix r rs assume c: "referenceOperations s = r # rs"
  then have "r \<noteq> NULL" using assms(1) by auto
  with c show "dvmGetNextHeapWorkerObject E op s =
         Some (Returned (r, WORKER_ENQUEUE),
               s\<lparr>referenceOperations := rs,
                 world := eff E (dvmUnlockMutex HeapWorkerListLock)
                            (eff E (dvmAddTrackedAlloc r)
                              (eff E (dvmLockMutex HeapWorkerListLock) (world s)))\<rparr>,
               [Call (dvmLockMutex HeapWorkerListLock),
                Call (getNextObjectFromLargeTable ReferenceOperations),
                Call (dvmAddTrackedAlloc r),
                Call (dvmUnlockMutex HeapWorkerListLock)])"
    by (rule poll_enqueue)
next
  fix p ps assume c: "referenceOperations s = [] \<and> pendingFinalizationRefs s = p # ps"
  then have "p \<noteq> NULL" using assms(2) by auto
  with c show "dvmGetNextHeapWorkerObject E op s =
         Some (Returned (p, WORKER_FINALIZE),
               s\<lparr>pendingFinalizationRefs := ps,
                 world := eff E (dvmUnlockMutex HeapWorkerListLock)
                            (eff E (dvmAddTrackedAlloc p)
                              (eff E (dvmLockMutex HeapWorkerListLock) (world s)))\<rparr>,
               [Call (dvmLockMutex HeapWorkerListLock),
                Call (getNextObjectFromLargeTable ReferenceOperations),
                Call (getNextObjectFromLargeTable PendingFinalizationRefs),
                Call (dvmAddTrackedAlloc p),
                Call (dvmUnlockMutex HeapWorkerListLock)])"
    by (intro poll_finalize) simp_all
next
  show "worker_polls E n op s =
      take n (map (\<lambda>r. (r, WORKER_ENQUEUE)) (referenceOperations s) @
              map (\<lambda>p. (p, WORKER_FINALIZE)) (pendingFinalizationRefs s))"
    using assms by (rule worker_polls_take)
qed

theorem dvmGetNextHeapWorkerObject_order_witness:
  "NULL \<notin> set (referenceOperations
       (demo_vm\<lparr>referenceOperations := [4096, 4104], pendingFinalizationRefs := [4096]\<rparr>)) \<and>
   NULL \<notin> set (pendingFinalizationRefs
       (demo_vm\<lparr>referenceOperations := [4096, 4104], pendingFinalizationRefs := [4096]\<rparr>)) \<and>
   dvmGetNextHeapWorkerObject demo_env WORKER_FINALIZE
       (demo_vm\<lparr>referenceOperations := [4096, 4104], pendingFinalizationRefs := [4096]\<rparr>) =
     Some (Returned (4096, WORKER_ENQUEUE),
           demo_vm\<lparr>referenceOperations := [4104], pendingFinalizationRefs := [4096]\<rparr>,
           [Call (dvmLockMutex HeapWorkerListLock),
            Call (getNextObjectFromLargeTable ReferenceOperations),
            Call (dvmAddTrackedAlloc 4096),
            Call (dvmUnlockMutex HeapWorkerListLock)]) \<and>
   worker_polls demo_env 3 WORKER_FINALIZE
       (demo_vm\<lparr>referenceOperations := [4096, 4104], pendingFinalizationRefs := [4096]\<rparr>) =
     [(4096, WORKER_ENQUEUE), (4104, WORKER_ENQUEUE), (4096, WORKER_FINALIZE)]"
proof -
  let ?s = "demo_vm\<lparr>referenceOperations := [4096, 4104], pendingFinalizationRefs := [4096]\<rparr>"
  have h: "NULL \<notin> set (referenceOperations ?s)" "NULL \<notin> set (pendingFinalizationRefs ?s)"
    by simp_all
  have r: "referenceOperations ?s = [4096, 4104]" by simp
  from dvmGetNextHeapWorkerObject_order [OF h, of demo_env WORKER_FINALIZE 3] h r
  show ?thesis by (simp add: demo_defs)
qed

subsection \<open>Waiting for the concurrent collector\<close>

lemma wait_body_returns: "\<exists>s1 out1. wait_body E s = Some (Returned (), s1, out1)"
  by (simp add: wait_body_def monad_defs)

lemma wakeups_Suc:
  "wait_body E s = Some (r, s1, out1) \<Longrightarrow>
   wakeups E (Suc n) s = (fst (wakeups E n s1), out1 @ snd (wakeups E n s1))"
  by (simp add: case_prod_beta)

lemma wait_loop_returns_at:
  "\<forall>k<n. gcRunning (fst (wakeups E k s)) \<Longrightarrow> \<not> gcRunning (fst (wakeups E n s)) \<Longrightarrow>
   wait_loop E s out = Some (Returned (), fst (wakeups E n s), out @ snd (wakeups E n s))"
proof (induction n arbitrary: s out)
  case 0
  then show ?case by (simp add: wait_loop.simps)
next
  case (Suc n)
  obtain s1 out1 where b: "wait_body E s = Some (Returned (), s1, out1)"
    using wait_body_returns by blast
  have run: "gcRunning s" using Suc.prems(1) [rule_format, of 0] by simp
  have w: "\<And>k. wakeups E (Suc k) s = (fst (wakeups E k s1), out1 @ snd (wakeups E k s1))"
    using b by (rule wakeups_Suc)
  have "\<forall>k<n. gcRunning (fst (wakeups E k s1))"
  proof (intro allI impI)
    fix k assume "k < n"
    then have "Suc k < Suc n" by simp
    then have "gcRunning (fst (wakeups E (Suc k) s))" using Suc.prems(1) by blast
    then show "gcRunning (fst (wakeups E k s1))" by (simp only: w fst_conv)
  qed
  moreover have "\<not> gcRunning (fst (wakeups E n s1))"
    using Suc.prems(2) by (simp add: w del: wakeups.simps)
  ultimately have "wait_loop E s1 (out @ out1) =
      Some (Returned (), fst (wakeups E n s1), (out @ out1) @ snd (wakeups E n s1))"
    by (rule Suc.IH)
  moreover have "wait_loop E s out = wait_loop E s1 (out @ out1)"
    using run b by (subst wait_loop.simps) simp
  ultimately show ?case by (simp only: w fst_conv snd_conv append_assoc)
qed

lemma wait_loop_returned:
  assumes "wait_loop E s out = Some r"
  shows "\<exists>n. (\<forall>k<n. gcRunning (fst (wakeups E k s))) \<and> \<not> gcRunning (fst (wakeups E n s)) \<and>
       r = (Returned (), fst (wakeups E n s), out @ snd (wakeups E n s))"
proof (rule wait_loop.raw_induct [where P = "\<lambda>E s out r.
     \<exists>n. (\<forall>k<n. gcRunning (fst (wakeups E k s))) \<and> \<not> gcRunning (fst (wakeups E n s)) \<and>
       r = (Returned (), fst (wakeups E n s), out @ snd (wakeups E n s))", OF _ assms])
  fix loop :: "'a env \<Rightarrow> 'a vm \<Rightarrow> event list \<Rightarrow> (unit outcome \<times> 'a vm \<times> event list) option"
  fix E s out r
  assume IH: "\<And>E s out r. loop E s out = Some r \<Longrightarrow>
     \<exists>n. (\<forall>k<n. gcRunning (fst (wakeups E k s))) \<and> \<not> gcRunning (fst (wakeups E n s)) \<and>
       r = (Returned (), fst (wakeups E n s), out @ snd (wakeups E n s))"
  assume step: "(if gcRunning s
      then case wait_body E s of None \<Rightarrow> None
           | Some (Returned x, s', out') \<Rightarrow> loop E s' (out @ out')
           | Some (Aborted, s', out') \<Rightarrow> Some (Aborted, s', out @ out')
      else Some (Returned (), s, out)) = Some r"
  show "\<exists>n. (\<forall>k<n. gcRunning (fst (wakeups E k s))) \<and> \<not> gcRunning (fst (wakeups E n s)) \<and>
       r = (Returned (), fst (wakeups E n s), out @ snd (wakeups E n s))"
  proof (cases "gcRunning s")
    case False
    then have "r = (Returned (), s, out)" using step by simp
    then have "(\<forall>k<0. gcRunning (fst (wakeups E k s))) \<and> \<not> gcRunning (fst (wakeups E 0 s)) \<and>
       r = (Returned (), fst (wakeups E 0 s), out @ snd (wakeups E 0 s))"
      using False by simp
    then show ?thesis by (rule exI)
  next
    case True
    obtain s1 out1 where b: "wait_body E s = Some (Returned (), s1, out1)"
      using wait_body_returns by blast
    have w: "\<And>k. wakeups E (Suc k) s = (fst (wakeups E k s1), out1 @ snd (wakeups E k s1))"
      using b by (rule wakeups_Suc)
    have "loop E s1 (out @ out1) = Some r" using step True b by simp
    from IH [OF this] obtain n where n: "\<forall>k<n. gcRunning (fst (wakeups E k s1))"
        "\<not> gcRunning (fst (wakeups E n s1))"
        "r = (Returned (), fst (wakeups E n s1), (out @ out1) @ snd (wakeups E n s1))"
      by blast
    have "\<forall>k<Suc n. gcRunning (fst (wakeups E k s))"
    proof (intro allI impI)
      fix k assume k: "k < Suc n"
      show "gcRunning (fst (wakeups E k s))"
      proof (cases k)
        case 0
        then show ?thesis using True by simp
      next
        case (Suc j)
        then have "j < n" using k by simp
        then have "gcRunning (fst (wakeups E j s1))" using n(1) by blast
        then show ?thesis unfolding Suc by (simp only: w fst_conv)
      qed
    qed
    moreover have "\<not> gcRunning (fst (wakeups E (Suc n) s))"
      using n(2) by (simp add: w del: wakeups.simps)
    moreover have "r = (Returned (), fst (wakeups E (Suc n) s), out @ snd (wakeups E (Suc n) s))"
      using n(3) by (simp only: w fst_conv snd_conv append_assoc)
    ultimately have "(\<forall>k<Suc n. gcRunning (fst (wakeups E k s))) \<and>
       \<not> gcRunning (fst (wakeups E (Suc n) s)) \<and>
       r = (Returned (), fst (wakeups E (Suc n) s), out @ snd (wakeups E (Suc n) s))"
      by (intro conjI)
    then show ?thesis by (rule exI)
  qed
qed

text \<open>
  C7. Whenever \<open>dvmWaitForConcurrentGcToComplete\<close> returns, \<open>gcRunning\<close> is false
  in the globals it returns with. More precisely, it returns exactly when there is a
  number \<open>n\<close> of wakeups such that \<open>gcRunning\<close> was true at the start and after
  each of the first \<open>n - 1\<close> wakeups and is false after the \<open>n\<close>-th, and it
  returns then: the flag is read again after every wakeup, a wakeup that finds it true is
  followed by another wait, and if the flag never becomes false the call does not return.
\<close>

theorem dvmWaitForConcurrentGcToComplete_returns:
  "(\<forall>x s' out. dvmWaitForConcurrentGcToComplete E s = Some (x, s', out) \<longrightarrow> \<not> gcRunning s') \<and>
   (dvmWaitForConcurrentGcToComplete E s = Some r \<longleftrightarrow>
      (\<exists>n. (\<forall>k<n. gcRunning (fst (wakeups E k s))) \<and> \<not> gcRunning (fst (wakeups E n s)) \<and>
           r = (Returned (), wakeups E n s)))"
proof (intro conjI allI impI iffI)
  fix x s' out
  assume "dvmWaitForConcurrentGcToComplete E s = Some (x, s', out)"
  then have "wait_loop E s [] = Some (x, s', out)"
    by (simp add: dvmWaitForConcurrentGcToComplete_def)
  from wait_loop_returned [OF this] obtain n where
    "\<not> gcRunning (fst (wakeups E n s))"
    "(x, s', out) = (Returned (), fst (wakeups E n s), [] @ snd (wakeups E n s))" by blast
  then show "\<not> gcRunning s'" by (auto simp: prod_eq_iff)
next
  assume "dvmWaitForConcurrentGcToComplete E s = Some r"
  then have "wait_loop E s [] = Some r" by (simp add: dvmWaitForConcurrentGcToComplete_def)
  from wait_loop_returned [OF this]
  show "\<exists>n. (\<forall>k<n. gcRunning (fst (wakeups E k s))) \<and> \<not> gcRunning (fst (wakeups E n s)) \<and>
         r = (Returned (), wakeups E n s)"
    by simp
next
  assume "\<exists>n. (\<forall>k<n. gcRunning (fst (wakeups E k s))) \<and> \<not> gcRunning (fst (wakeups E n s)) \<and>
         r = (Returned (), wakeups E n s)"
  then obtain n where n: "\<forall>k<n. gcRunning (fst (wakeups E k s))"
    "\<not> gcRunning (fst (wakeups E n s))" "r = (Returned (), wakeups E n s)" by blast
  from wait_loop_returns_at [OF n(1) n(2), of "[]"] n(3)
  show "dvmWaitForConcurrentGcToComplete E s = Some r"
    by (simp add: dvmWaitForConcurrentGcToComplete_def)
qed

lemma demo_wakeups:
  "wakeups demo_env 3 (demo_vm\<lparr>gcRunning := True\<rparr>) =
     (demo_vm\<lparr>world := 2\<rparr>,
      [Call (dvmChangeStatus 8), Call dvmWaitCond, Call (dvmChangeStatus 0),
       Call (dvmChangeStatus 8), Call dvmWaitCond, Call (dvmChangeStatus 0),
       Call (dvmChangeStatus 8), Call dvmWaitCond, Call (dvmChangeStatus 0)])"
  "gcRunning (fst (wakeups demo_env 0 (demo_vm\<lparr>gcRunning := True\<rparr>)))"
  "gcRunning (fst (wakeups demo_env 1 (demo_vm\<lparr>gcRunning := True\<rparr>)))"
  "gcRunning (fst (wakeups demo_env 2 (demo_vm\<lparr>gcRunning := True\<rparr>)))"
  by (simp_all add: eval_nat_numeral wait_body_def monad_defs demo_defs)

lemma demo_wakeups_running:
  "\<forall>k<3. gcRunning (fst (wakeups demo_env k (demo_vm\<lparr>gcRunning := True\<rparr>)))"
proof (intro allI impI)
  fix k :: nat assume "k < 3"
  then have "k = 0 \<or> k = 1 \<or> k = 2" by arith
  then show "gcRunning (fst (wakeups demo_env k (demo_vm\<lparr>gcRunning := True\<rparr>)))"
    using demo_wakeups(2-4) by (elim disjE) (simp_all only:)
qed

theorem dvmWaitForConcurrentGcToComplete_returns_witness:
  "dvmWaitForConcurrentGcToComplete demo_env (demo_vm\<lparr>gcRunning := True\<rparr>) =
     Some (Returned (), demo_vm\<lparr>world := 2\<rparr>,
      [Call (dvmChangeStatus 8), Call dvmWaitCond, Call (dvmChangeStatus 0),
       Call (dvmChangeStatus 8), Call dvmWaitCond, Call (dvmChangeStatus 0),
       Call (dvmChangeStatus 8), Call dvmWaitCond, Call (dvmChangeStatus 0)]) \<and>
   \<not> gcRunning (demo_vm\<lparr>world := 2\<rparr>)"
proof -
  let ?s = "demo_vm\<lparr>gcRunning := True\<rparr>"
  have stop: "\<not> gcRunning (fst (wakeups demo_env 3 ?s))"
    unfolding demo_wakeups(1) by (simp add: demo_vm_def)
  have "\<exists>n. (\<forall>k<n. gcRunning (fst (wakeups demo_env k ?s))) \<and>
          \<not> gcRunning (fst (wakeups demo_env n ?s)) \<and>
          (Returned (), wakeups demo_env 3 ?s) = (Returned (), wakeups demo_env n ?s)"
    using demo_wakeups_running stop by blast
  then have "dvmWaitForConcurrentGcToComplete demo_env ?s = Some (Returned (), wakeups demo_env 3 ?s)"
    using dvmWaitForConcurrentGcToComplete_returns
      [of demo_env ?s "(Returned (), wakeups demo_env 3 ?s)"] by blast
  then show ?thesis unfolding demo_wakeups(1) by (simp add: demo_vm_def)
qed

subsection \<open>The phases of a collection\<close>

lemma ladder_event_simps:
  "ladder_event (Log m fmt args) = False"
  "ladder_event (Call c) =
     (case c of
        dvmHeapSourceAlloc n \<Rightarrow> True
      | dvmHeapSourceAllocAndGrow n \<Rightarrow> True
      | dvmWaitCond \<Rightarrow> True
      | dvmSuspendAllThreads \<Rightarrow> True
      | dvmResumeAllThreads \<Rightarrow> True
      | dvmHeapBeginMarkStep m \<Rightarrow> True
      | dvmHeapMarkRootSet \<Rightarrow> True
      | dvmClearCardTable \<Rightarrow> True
      | dvmHeapScanMarkedObjects \<Rightarrow> True
      | dvmHeapReMarkRootSet \<Rightarrow> True
      | dvmHeapReScanMarkedObjects \<Rightarrow> True
      | dvmHeapProcessReferences clear \<Rightarrow> True
      | dvmHeapSweepSystemWeaks \<Rightarrow> True
      | dvmHeapSourceSwapBitmaps \<Rightarrow> True
      | dvmHeapSweepUnmarkedObjects m concurrent \<Rightarrow> True
      | dvmHeapFinishMarkStep \<Rightarrow> True
      | dvmHeapSourceGrowForUtilization \<Rightarrow> True
      | _ \<Rightarrow> False)"
  by (simp_all add: ladder_event_def)

text \<open>
  What each piece of a collection for an allocation contributes to the steps of a run
  that returns from it.
\<close>

lemma gc_suspend_steps:
  "gc_suspend E GC_FOR_MALLOC s = Some (Returned (gcMode, t, t'), s1, out) \<Longrightarrow>
   gcMode = GC_PARTIAL \<and> filter ladder_event out = [Call dvmSuspendAllThreads]"
  by (auto simp: gc_suspend_def monad_defs ladder_event_simps Let_def)

lemma gc_elevate_priority_steps:
  "gc_elevate_priority E GC_FOR_MALLOC s = Some (Returned p, s1, out) \<Longrightarrow>
   filter ladder_event out = []"
  by (auto simp: gc_elevate_priority_def monad_defs ladder_event_simps split: if_splits)

lemma gc_mark_roots_steps:
  "gc_mark_roots E GC_FOR_MALLOC gcMode s = Some (Returned t, s1, out) \<Longrightarrow>
   filter ladder_event out = [Call (dvmHeapBeginMarkStep gcMode), Call dvmHeapMarkRootSet]"
  by (auto simp: gc_mark_roots_def verifyRootsAndHeap_def monad_defs ladder_event_simps
      split: if_splits)

lemma gc_trace_steps:
  "gc_trace E GC_FOR_MALLOC s = Some (Returned t, s1, out) \<Longrightarrow>
   filter ladder_event out = [Call dvmHeapScanMarkedObjects]"
  by (auto simp: gc_trace_def monad_defs ladder_event_simps split: if_splits)

lemma gc_sweep_steps:
  "gc_sweep E clear GC_FOR_MALLOC gcMode s = Some (Returned t, s1, out) \<Longrightarrow>
   filter ladder_event out =
     [Call (dvmHeapProcessReferences clear), Call dvmHeapSweepSystemWeaks,
      Call dvmHeapSourceSwapBitmaps, Call (dvmHeapSweepUnmarkedObjects gcMode False),
      Call dvmHeapFinishMarkStep]"
  by (auto simp: gc_sweep_def verifyRootsAndHeap_def monad_defs ladder_event_simps
      split: if_splits)

lemma gc_finish_steps:
  "gc_finish E GC_FOR_MALLOC p d s = Some (Returned t, s1, out) \<Longrightarrow>
   filter ladder_event out = [Call dvmHeapSourceGrowForUtilization, Call dvmResumeAllThreads]"
  by (auto simp: gc_finish_def monad_defs ladder_event_simps split: if_splits)

lemma gc_finish_flag:
  "gc_flag_owned E \<Longrightarrow> gc_finish E GC_FOR_MALLOC p d s = Some (Returned t, s1, out) \<Longrightarrow>
   \<not> gcRunning s1"
  by (auto simp: gc_finish_def monad_defs gc_flag_owned_def split: if_splits)

lemma gc_report_steps:
  "gc_report E reason a b c d e f g h i s = Some (r, s1, out) \<Longrightarrow>
   s1 = s \<and> filter ladder_event out = []"
  by (auto simp: gc_report_def monad_defs ladder_event_simps Let_def split: if_splits)

lemma gc_ddm_steps:
  "gc_ddm E s = Some (r, s1, out) \<Longrightarrow>
   gcRunning s1 = gcRunning s \<and> filter ladder_event out = []"
  by (auto simp: gc_ddm_def monad_defs ladder_event_simps split: if_splits)

lemma count_collection_returns:
  "count_collection E s = Some (r, s1, out) \<Longrightarrow>
   (\<exists>x. r = Returned x) \<and> gcRunning s1 = gcRunning s \<and> filter ladder_event out = []"
  by (auto simp: count_collection_def monad_defs split: if_splits)

text \<open>
  A cycle of the collector that returns has gone through every phase, once and in order,
  with the \<open>clear_soft_refs\<close> it was given; the flag \<open>gcRunning\<close> is false again
  after it when nothing but the collector writes the flag.
\<close>

lemma gc_cycle_steps:
  assumes "gc_cycle E clear GC_FOR_MALLOC s = Some (Returned x, s', out)"
  shows "filter ladder_event out = collection_phases clear"
  using assms unfolding gc_cycle_def thenM_def
  by (auto dest!: bindM_returns gc_suspend_steps gc_elevate_priority_steps gc_mark_roots_steps
        gc_trace_steps gc_sweep_steps gc_finish_steps gc_report_steps gc_ddm_steps
      simp: collection_phases_def split: prod.splits)

lemma gc_cycle_flag:
  assumes "gc_flag_owned E" "gc_cycle E clear GC_FOR_MALLOC s = Some (Returned x, s', out)"
  shows "\<not> gcRunning s'"
  using assms(2) unfolding gc_cycle_def thenM_def
  by (auto dest!: bindM_returns gc_report_steps gc_ddm_steps gc_finish_flag [OF assms(1)]
      split: prod.splits)

lemma collection_steps:
  assumes "collection_for_malloc E clear s = Some (Returned x, s', out)"
  shows "filter ladder_event out = collection_phases clear"
  using assms unfolding collection_for_malloc_def thenM_def
  by (auto dest!: bindM_returns count_collection_returns gc_cycle_steps)

lemma collection_flag:
  assumes "gc_flag_owned E" "collection_for_malloc E clear s = Some (Returned x, s', out)"
  shows "\<not> gcRunning s'"
  using assms(2) unfolding collection_for_malloc_def thenM_def
  by (auto dest!: bindM_returns gc_cycle_flag [OF assms(1)])

text \<open>
  \<open>gcForMalloc\<close> runs such a cycle when \<open>gcRunning\<close> is false, and nothing of it
  when \<open>gcRunning\<close> is true.
\<close>

lemma gcForMalloc_steps:
  "gcForMalloc E clear s = Some (Returned x, s1, out) \<Longrightarrow>
   filter ladder_event out = (if gcRunning s then [] else collection_phases clear)"
  unfolding gcForMalloc_def dvmCollectGarbageInternal_def
  by (auto simp: monad_defs ladder_event_simps dest!: gc_cycle_steps
      split: if_splits option.splits outcome.splits prod.splits)

lemma gcForMalloc_flag:
  "gc_flag_owned E \<Longrightarrow> \<not> gcRunning s \<Longrightarrow>
   gcForMalloc E clear s = Some (Returned x, s1, out) \<Longrightarrow> \<not> gcRunning s1"
  unfolding gcForMalloc_def dvmCollectGarbageInternal_def
  by (auto simp: monad_defs dest: gc_cycle_flag
      split: if_splits option.splits outcome.splits prod.splits)

lemma gcForMalloc_returns:
  "gcForMalloc E clear s = Some (Returned x, s1, out) \<Longrightarrow>
   filter ladder_event out = (if gcRunning s then [] else collection_phases clear) \<and>
   (gc_flag_owned E \<longrightarrow> \<not> gcRunning s \<longrightarrow> \<not> gcRunning s1)"
  using gcForMalloc_steps gcForMalloc_flag by blast

lemma demo_flag_owned: "gc_flag_owned demo_env"
  by (auto simp: gc_flag_owned_def demo_env_def split: call.splits)

subsection \<open>The allocation ladder\<close>

lemma prepend_out_simps:
  "prepend_out [] r = r"
  "prepend_out out1 None = None"
  "prepend_out out1 (Some (x, s, out2)) = Some (x, s, out1 @ out2)"
  by (cases r; simp add: prepend_out_def)+

lemma obs_bind_simps:
  "obs_bind None k = None"
  "obs_bind (Some (Aborted, s1, out1)) k = Some (Aborted, s1, out1)"
  "obs_bind (Some (Returned x, s1, out1)) k = prepend_out out1 (k x s1)"
  by (simp_all add: obs_bind_def)

lemma observe_bindM:
  "observe (bindM m f s) = obs_bind (observe (m s)) (\<lambda>x s1. observe (f x s1))"
  by (auto simp: observe_def bindM_def obs_bind_def prepend_out_def
      split: option.splits outcome.splits prod.splits)

lemma observe_prims:
  "observe (returnM x s) = Some (Returned x, s, [])"
  "observe (getM s) = Some (Returned s, s, [])"
  "observe (logM m fmt args s) = Some (Returned (), s, [])"
  "observe (queryM E dvmDumpThread s) = Some (Returned (ret E dvmDumpThread (world s)), s, [])"
  "observe (queryM E dvmHeapSourceGetIdealFootprint s) =
     Some (Returned (ret E dvmHeapSourceGetIdealFootprint (world s)), s, [])"
  "observe (callM E (dvmHeapSourceAlloc n) s) =
     Some (Returned (ret E (dvmHeapSourceAlloc n) (world s)),
           s\<lparr>world := eff E (dvmHeapSourceAlloc n) (world s)\<rparr>, [Call (dvmHeapSourceAlloc n)])"
  "observe (callM E (dvmHeapSourceAllocAndGrow n) s) =
     Some (Returned (ret E (dvmHeapSourceAllocAndGrow n) (world s)),
           s\<lparr>world := eff E (dvmHeapSourceAllocAndGrow n) (world s)\<rparr>,
           [Call (dvmHeapSourceAllocAndGrow n)])"
  by (simp_all add: observe_def monad_defs diagnostic_def)

lemma observe_if: "observe ((if c then a else b) s) = (if c then observe (a s) else observe (b s))"
  by simp

lemma prepend_prepend:
  "prepend_out out1 (prepend_out out2 r) = prepend_out (out1 @ out2) r"
  by (cases r) (auto simp: prepend_out_def)

lemma obs_bind_prepend:
  "obs_bind (prepend_out out1 r) k = prepend_out out1 (obs_bind r k)"
proof (cases r)
  case None
  then show ?thesis by (simp add: obs_bind_def prepend_out_simps)
next
  case (Some t)
  then show ?thesis
    by (cases t; cases "fst t") (auto simp: obs_bind_def prepend_out_simps prepend_prepend)
qed

lemma obs_bind_assoc:
  "obs_bind (obs_bind r k1) k2 = obs_bind r (\<lambda>x s1. obs_bind (k1 x s1) k2)"
proof (cases r)
  case None
  then show ?thesis by (simp add: obs_bind_def)
next
  case (Some t)
  then show ?thesis
    by (cases t; cases "fst t") (auto simp: obs_bind_simps obs_bind_prepend)
qed

lemma obs_bind_if:
  "obs_bind (if c then a else b) k = (if c then obs_bind a k else obs_bind b k)"
  by simp

lemmas observe_simps = observe_bindM observe_prims observe_if obs_bind_simps prepend_out_simps
  obs_bind_assoc obs_bind_prepend prepend_prepend obs_bind_if

lemma observe_Some:
  "observe r = Some (x, s1, out) \<Longrightarrow> \<exists>out'. r = Some (x, s1, out')"
  by (auto simp: observe_def)

lemma ladder_event_observed: "(\<not> diagnostic e \<and> ladder_event e) = ladder_event e"
  by (auto simp: diagnostic_def ladder_event_def split: event.splits call.splits)

lemma obs_bind_cong:
  "(\<And>x s1 out1. r = Some (Returned x, s1, out1) \<Longrightarrow> k x s1 = k' x s1) \<Longrightarrow>
   obs_bind r k = obs_bind r k'"
  by (auto simp: obs_bind_def split: option.splits outcome.splits prod.splits)

lemma observe_modifyM: "observe (modifyM f s) = Some (Returned (), f s, [])"
  by (simp add: observe_def modifyM_def)

lemma gcForMalloc_collection:
  "\<not> gcRunning s \<Longrightarrow>
   observe (gcForMalloc E clear s) = observe (collection_for_malloc E clear s)"
  unfolding gcForMalloc_def collection_for_malloc_def count_collection_def
    dvmCollectGarbageInternal_def thenM_def whenM_def
  by (simp add: observe_simps observe_modifyM cong: if_cong)

lemma wait_flag:
  "observe (dvmWaitForConcurrentGcToComplete E s) = Some (r, s1, out) \<Longrightarrow> \<not> gcRunning s1"
proof -
  assume "observe (dvmWaitForConcurrentGcToComplete E s) = Some (r, s1, out)"
  then obtain out' where "wait_loop E s [] = Some (r, s1, out')"
    by (auto dest!: observe_Some simp: dvmWaitForConcurrentGcToComplete_def)
  from wait_loop_returned [OF this] show ?thesis by (auto simp: prod_eq_iff)
qed

lemma observed_collection_flag:
  "gc_flag_owned E \<Longrightarrow>
   observe (collection_for_malloc E clear s) = Some (Returned x, s1, out) \<Longrightarrow> \<not> gcRunning s1"
  by (auto dest!: observe_Some dest: collection_flag)

lemma soft_refs_ladder:
  "\<not> gcRunning s \<Longrightarrow>
   observe (tryMalloc_collect_soft_refs E n s) = observe (first_non_null [ladder_soft_refs E n] s)"
  unfolding tryMalloc_collect_soft_refs_def ladder_soft_refs_def first_non_null.simps thenM_def
  by (simp add: observe_simps gcForMalloc_collection cong: if_cong)

lemma foreground_ladder:
  assumes "gc_flag_owned E" "\<not> gcRunning s"
  shows "observe (tryMalloc_foreground_gc E n s) =
   observe (first_non_null
     [ladder_foreground_gc E n, ladder_alloc_and_grow E n, ladder_soft_refs E n] s)"
  unfolding tryMalloc_foreground_gc_def ladder_foreground_gc_def ladder_alloc_and_grow_def
    first_non_null.simps(2) thenM_def
  apply (simp add: observe_simps gcForMalloc_collection assms(2) cong: if_cong)
  apply (rule obs_bind_cong)
  apply (simp add: observe_simps soft_refs_ladder observed_collection_flag [OF assms(1)]
      cong: if_cong)
  done

lemma tryMalloc_ladder:
  assumes "gc_flag_owned E" "\<not> heapGrowthLimit s \<le> n"
  shows "observe (tryMalloc E n s) = observe (try_alloc_ladder E n s)"
proof (cases "gcRunning s")
  case False
  then show ?thesis using assms(2)
    unfolding tryMalloc_def try_alloc_ladder_def ladder_alloc_def ladder_wait_for_gc_def
      first_non_null.simps(2) thenM_def
    by (simp add: observe_simps foreground_ladder [OF assms(1)] cong: if_cong)
next
  case True
  then show ?thesis using assms(2)
    unfolding tryMalloc_def try_alloc_ladder_def ladder_alloc_def ladder_wait_for_gc_def
      first_non_null.simps(2) thenM_def
    apply (simp add: observe_simps cong: if_cong)
    apply (rule impI)
    apply (rule arg_cong [where f = "prepend_out [Call (dvmHeapSourceAlloc n)]"])
    apply (rule obs_bind_cong)
    apply (simp add: observe_simps foreground_ladder [OF assms(1)] wait_flag cong: if_cong)
    done
qed



text \<open>The steps of the runs of \<open>tryMalloc\<close>, from its last label backwards.\<close>

lemma soft_refs_steps:
  "tryMalloc_collect_soft_refs E n s = Some (Returned ptr, s', out) \<Longrightarrow>
   filter ladder_event out =
     (if gcRunning s then [] else collection_phases True) @ [Call (dvmHeapSourceAllocAndGrow n)]"
  unfolding tryMalloc_collect_soft_refs_def
  by (auto simp: monad_defs ladder_event_simps dest!: gcForMalloc_steps
      split: if_splits option.splits outcome.splits prod.splits)

lemma foreground_steps:
  "gc_flag_owned E \<Longrightarrow> \<not> gcRunning s \<Longrightarrow>
   tryMalloc_foreground_gc E n s = Some (Returned NULL, s', out) \<Longrightarrow>
   filter ladder_event out =
     collection_phases False @
     [Call (dvmHeapSourceAlloc n), Call (dvmHeapSourceAllocAndGrow n)] @
     collection_phases True @ [Call (dvmHeapSourceAllocAndGrow n)]"
  unfolding tryMalloc_foreground_gc_def
  by (auto simp: monad_defs ladder_event_simps
      dest!: soft_refs_steps gcForMalloc_returns
      split: if_splits option.splits outcome.splits prod.splits)

lemma wakeups_steps:
  "filter ladder_event (snd (wakeups E n s)) = replicate n (Call dvmWaitCond)"
  by (induction n arbitrary: s)
     (simp_all add: wait_body_def monad_defs ladder_event_simps case_prod_beta)

lemma wait_steps:
  assumes "dvmWaitForConcurrentGcToComplete E s = Some (r, s1, out)"
  shows "\<exists>k. filter ladder_event out = replicate k (Call dvmWaitCond) \<and> \<not> gcRunning s1 \<and>
           (gcRunning s \<longrightarrow> 0 < k)"
proof -
  from assms have "wait_loop E s [] = Some (r, s1, out)"
    by (simp add: dvmWaitForConcurrentGcToComplete_def)
  from wait_loop_returned [OF this] obtain k where
    k: "\<not> gcRunning (fst (wakeups E k s))"
       "(r, s1, out) = (Returned (), fst (wakeups E k s), [] @ snd (wakeups E k s))" by blast
  have "gcRunning s \<longrightarrow> 0 < k" using k(1) by (cases k) auto
  moreover have "filter ladder_event out = replicate k (Call dvmWaitCond)"
    using k(2) wakeups_steps [of E k s] by (auto simp: prod_eq_iff)
  moreover have "\<not> gcRunning s1" using k by (auto simp: prod_eq_iff)
  ultimately show ?thesis by blast
qed

lemma tryMalloc_null_steps:
  assumes "gc_flag_owned E" "\<not> heapGrowthLimit s \<le> n"
    "tryMalloc E n s = Some (Returned NULL, s', out)"
  shows "\<exists>k. filter ladder_event out = whole_ladder n (gcRunning s) k"
proof (cases "gcRunning s")
  case False
  then show ?thesis using assms(2,3) unfolding tryMalloc_def whole_ladder_def
    by (auto simp: monad_defs ladder_event_simps
        dest!: foreground_steps [OF assms(1), rotated]
        split: if_splits option.splits outcome.splits prod.splits)
next
  case True
  let ?a = "Call (dvmHeapSourceAlloc n)"
  let ?s0 = "s\<lparr>world := eff E (dvmHeapSourceAlloc n) (world s)\<rparr>"
  from assms(2,3) True obtain s1 out1 out2 where
    w: "dvmWaitForConcurrentGcToComplete E ?s0 = Some (Returned (), s1, out1)" and
    fg: "tryMalloc_foreground_gc E n (s1\<lparr>world := eff E (dvmHeapSourceAlloc n) (world s1)\<rparr>) =
           Some (Returned NULL, s', out2)" and
    out: "out = ?a # out1 @ ?a # out2"
    unfolding tryMalloc_def
    by (auto simp: monad_defs split: if_splits option.splits outcome.splits prod.splits)
  from wait_steps [OF w] True obtain k where
    k: "filter ladder_event out1 = replicate k (Call dvmWaitCond)" "\<not> gcRunning s1" "0 < k"
    by auto
  from k(3) obtain m where m: "k = Suc m" by (cases k) auto
  have "\<not> gcRunning (s1\<lparr>world := eff E (dvmHeapSourceAlloc n) (world s1)\<rparr>)"
    using k(2) by simp
  from foreground_steps [OF assms(1) this fg]
  have "filter ladder_event out = whole_ladder n True m"
    using k(1) by (simp add: out m ladder_event_simps whole_ladder_def)
  then show ?thesis using True by auto
qed



text \<open>
  C1. Below the growth limit, \<open>tryMalloc\<close> is the ladder of the spec: the fast
  allocation; if the collector is running, the wait and a second allocation; a
  foreground collection with \<open>clear_soft_refs\<close> false and a third allocation; the
  allocation that may grow the heap; a collection with \<open>clear_soft_refs\<close> true and a
  second growing allocation. The theorem has three parts.

  First, \<open>tryMalloc\<close> and the ladder return the same, leave the same globals and make
  the same calls in the same order, the log and the thread dump apart: the steps run in
  this order, the first pointer that is not \<open>NULL\<close> is returned with nothing run after
  it, and \<open>NULL\<close> is returned only when all have failed.

  Second, the collection of steps 3 and 5 is a collection: whenever it returns, the
  threads were suspended, the partial mark step begun, the roots marked and traced, the
  references processed with the \<open>clear_soft_refs\<close> of the step, the heap swept and
  resized and the threads resumed, once each and in this order, and \<open>gcRunning\<close> is
  false again.

  Third, every run of \<open>tryMalloc\<close> that returns \<open>NULL\<close> has made all the steps:
  the allocation, the wakeups (at least one) and the second allocation if the collector
  was running, the phases of a collection that keeps the soft references, the two
  allocations, the phases of a collection that clears them and the last allocation.

  The steps 3 and 5 are reached with \<open>gcRunning\<close> false, after the wait or after the
  collection of step 3, so that the collector does not take them for a recursive call.
  This uses that the collector alone writes \<open>gcRunning\<close> (lines 550 and 760 of the
  source, under the heap lock that \<open>tryMalloc\<close> holds): the functions of the other
  files, the wait apart, leave it as it is.
\<close>

theorem tryMalloc_is_ladder:
  assumes "size' < heapGrowthLimit s" and "gc_flag_owned E"
  shows "observe (tryMalloc E size' s) = observe (try_alloc_ladder E size' s) \<and>
   (\<forall>clear s0 x s1 out.
      collection_for_malloc E clear s0 = Some (Returned x, s1, out) \<longrightarrow>
      filter ladder_event out = collection_phases clear \<and> \<not> gcRunning s1) \<and>
   (\<forall>s' out.
      tryMalloc E size' s = Some (Returned NULL, s', out) \<longrightarrow>
      (\<exists>k. filter ladder_event out = whole_ladder size' (gcRunning s) k))"
proof (intro conjI allI impI)
  have below: "\<not> heapGrowthLimit s \<le> size'" using assms(1) by (simp add: not_le)
  show "observe (tryMalloc E size' s) = observe (try_alloc_ladder E size' s)"
    using assms(2) below by (rule tryMalloc_ladder)
  fix s' out
  assume "tryMalloc E size' s = Some (Returned NULL, s', out)"
  with assms(2) below
  show "\<exists>k. filter ladder_event out = whole_ladder size' (gcRunning s) k"
    by (rule tryMalloc_null_steps)
next
  fix clear s0 x s1 out
  assume run: "collection_for_malloc E clear s0 = Some (Returned x, s1, out)"
  then show "filter ladder_event out = collection_phases clear" by (rule collection_steps)
  from assms(2) run show "\<not> gcRunning s1" by (rule collection_flag)
qed

theorem tryMalloc_is_ladder_witness:
  "64 < heapGrowthLimit (demo_vm\<lparr>gcRunning := True\<rparr>) \<and> gc_flag_owned demo_env \<and>
   map_option (\<lambda>(x, s, out). (x, s, filter ladder_event out))
     (observe (tryMalloc demo_env 64 (demo_vm\<lparr>gcRunning := True\<rparr>))) =
     Some (Returned NULL, demo_vm\<lparr>world := 34\<rparr>,
      [Call (dvmHeapSourceAlloc 64),
       Call dvmWaitCond, Call dvmWaitCond, Call dvmWaitCond,
       Call (dvmHeapSourceAlloc 64),
       Call dvmSuspendAllThreads, Call (dvmHeapBeginMarkStep GC_PARTIAL),
       Call dvmHeapMarkRootSet, Call dvmHeapScanMarkedObjects,
       Call (dvmHeapProcessReferences False), Call dvmHeapSweepSystemWeaks,
       Call dvmHeapSourceSwapBitmaps, Call (dvmHeapSweepUnmarkedObjects GC_PARTIAL False),
       Call dvmHeapFinishMarkStep, Call dvmHeapSourceGrowForUtilization,
       Call dvmResumeAllThreads,
       Call (dvmHeapSourceAlloc 64), Call (dvmHeapSourceAllocAndGrow 64),
       Call dvmSuspendAllThreads, Call (dvmHeapBeginMarkStep GC_PARTIAL),
       Call dvmHeapMarkRootSet, Call dvmHeapScanMarkedObjects,
       Call (dvmHeapProcessReferences True), Call dvmHeapSweepSystemWeaks,
       Call dvmHeapSourceSwapBitmaps, Call (dvmHeapSweepUnmarkedObjects GC_PARTIAL False),
       Call dvmHeapFinishMarkStep, Call dvmHeapSourceGrowForUtilization,
       Call dvmResumeAllThreads,
       Call (dvmHeapSourceAllocAndGrow 64)]) \<and>
   map_option (\<lambda>(x, s, out). (x, s, filter ladder_event out))
     (observe (tryMalloc demo_env 16 (demo_vm\<lparr>gcRunning := True\<rparr>))) =
     Some (Returned 4096, demo_vm\<lparr>world := 18\<rparr>,
      [Call (dvmHeapSourceAlloc 16),
       Call dvmWaitCond, Call dvmWaitCond, Call dvmWaitCond,
       Call (dvmHeapSourceAlloc 16),
       Call dvmSuspendAllThreads, Call (dvmHeapBeginMarkStep GC_PARTIAL),
       Call dvmHeapMarkRootSet, Call dvmHeapScanMarkedObjects,
       Call (dvmHeapProcessReferences False), Call dvmHeapSweepSystemWeaks,
       Call dvmHeapSourceSwapBitmaps, Call (dvmHeapSweepUnmarkedObjects GC_PARTIAL False),
       Call dvmHeapFinishMarkStep, Call dvmHeapSourceGrowForUtilization,
       Call dvmResumeAllThreads,
       Call (dvmHeapSourceAlloc 16), Call (dvmHeapSourceAllocAndGrow 16),
       Call dvmSuspendAllThreads, Call (dvmHeapBeginMarkStep GC_PARTIAL),
       Call dvmHeapMarkRootSet, Call dvmHeapScanMarkedObjects,
       Call (dvmHeapProcessReferences True), Call dvmHeapSweepSystemWeaks,
       Call dvmHeapSourceSwapBitmaps, Call (dvmHeapSweepUnmarkedObjects GC_PARTIAL False),
       Call dvmHeapFinishMarkStep, Call dvmHeapSourceGrowForUtilization,
       Call dvmResumeAllThreads,
       Call (dvmHeapSourceAllocAndGrow 16)]) \<and>
   (\<exists>s' out. tryMalloc demo_env 64 (demo_vm\<lparr>gcRunning := True\<rparr>) =
        Some (Returned NULL, s', out) \<and>
      filter ladder_event out = whole_ladder 64 True 2)"
proof -
  let ?s = "demo_vm\<lparr>gcRunning := True\<rparr>"
  let ?failed = "[Call (dvmHeapSourceAlloc 64),
       Call dvmWaitCond, Call dvmWaitCond, Call dvmWaitCond,
       Call (dvmHeapSourceAlloc 64),
       Call dvmSuspendAllThreads, Call (dvmHeapBeginMarkStep GC_PARTIAL),
       Call dvmHeapMarkRootSet, Call dvmHeapScanMarkedObjects,
       Call (dvmHeapProcessReferences False), Call dvmHeapSweepSystemWeaks,
       Call dvmHeapSourceSwapBitmaps, Call (dvmHeapSweepUnmarkedObjects GC_PARTIAL False),
       Call dvmHeapFinishMarkStep, Call dvmHeapSourceGrowForUtilization,
       Call dvmResumeAllThreads,
       Call (dvmHeapSourceAlloc 64), Call (dvmHeapSourceAllocAndGrow 64),
       Call dvmSuspendAllThreads, Call (dvmHeapBeginMarkStep GC_PARTIAL),
       Call dvmHeapMarkRootSet, Call dvmHeapScanMarkedObjects,
       Call (dvmHeapProcessReferences True), Call dvmHeapSweepSystemWeaks,
       Call dvmHeapSourceSwapBitmaps, Call (dvmHeapSweepUnmarkedObjects GC_PARTIAL False),
       Call dvmHeapFinishMarkStep, Call dvmHeapSourceGrowForUtilization,
       Call dvmResumeAllThreads,
       Call (dvmHeapSourceAllocAndGrow 64)]"
  let ?served = "[Call (dvmHeapSourceAlloc 16),
       Call dvmWaitCond, Call dvmWaitCond, Call dvmWaitCond,
       Call (dvmHeapSourceAlloc 16),
       Call dvmSuspendAllThreads, Call (dvmHeapBeginMarkStep GC_PARTIAL),
       Call dvmHeapMarkRootSet, Call dvmHeapScanMarkedObjects,
       Call (dvmHeapProcessReferences False), Call dvmHeapSweepSystemWeaks,
       Call dvmHeapSourceSwapBitmaps, Call (dvmHeapSweepUnmarkedObjects GC_PARTIAL False),
       Call dvmHeapFinishMarkStep, Call dvmHeapSourceGrowForUtilization,
       Call dvmResumeAllThreads,
       Call (dvmHeapSourceAlloc 16), Call (dvmHeapSourceAllocAndGrow 16),
       Call dvmSuspendAllThreads, Call (dvmHeapBeginMarkStep GC_PARTIAL),
       Call dvmHeapMarkRootSet, Call dvmHeapScanMarkedObjects,
       Call (dvmHeapProcessReferences True), Call dvmHeapSweepSystemWeaks,
       Call dvmHeapSourceSwapBitmaps, Call (dvmHeapSweepUnmarkedObjects GC_PARTIAL False),
       Call dvmHeapFinishMarkStep, Call dvmHeapSourceGrowForUtilization,
       Call dvmResumeAllThreads,
       Call (dvmHeapSourceAllocAndGrow 16)]"
  have lt: "64 < heapGrowthLimit ?s" "16 < heapGrowthLimit ?s" by (simp_all add: demo_vm_def)
  have a: "map_option (\<lambda>(x, s, out). (x, s, filter ladder_event out))
     (observe (try_alloc_ladder demo_env 64 ?s)) =
     Some (Returned NULL, demo_vm\<lparr>world := 34\<rparr>, ?failed)"
    by code_simp
  have b: "map_option (\<lambda>(x, s, out). (x, s, filter ladder_event out))
     (observe (try_alloc_ladder demo_env 16 ?s)) =
     Some (Returned 4096, demo_vm\<lparr>world := 18\<rparr>, ?served)"
    by code_simp
  note A = tryMalloc_is_ladder [OF lt(1) demo_flag_owned]
  note B = tryMalloc_is_ladder [OF lt(2) demo_flag_owned]
  have ea: "observe (tryMalloc demo_env 64 ?s) = observe (try_alloc_ladder demo_env 64 ?s)"
    using A by (rule conjunct1)
  have eb: "observe (tryMalloc demo_env 16 ?s) = observe (try_alloc_ladder demo_env 16 ?s)"
    using B by (rule conjunct1)
  from a obtain s' out where
    run: "tryMalloc demo_env 64 ?s = Some (Returned NULL, s', out)" and
    steps: "filter ladder_event out = ?failed"
    unfolding ea [symmetric]
    by (cases "tryMalloc demo_env 64 ?s") (auto simp: observe_def ladder_event_observed)
  from A run obtain k where k: "filter ladder_event out = whole_ladder 64 (gcRunning ?s) k"
    by blast
  have "length (whole_ladder 64 True k) = length ?failed" using k steps by simp
  then have "k = 2" by (simp add: whole_ladder_def collection_phases_def)
  with k run have c: "\<exists>s' out. tryMalloc demo_env 64 ?s = Some (Returned NULL, s', out) \<and>
      filter ladder_event out = whole_ladder 64 True 2"
    by auto
  show ?thesis using lt(1) demo_flag_owned a b c by (simp only: ea eb simp_thms)
qed




subsection \<open>dvmMalloc\<close>

lemma dvmMalloc_pieces:
  "dvmMalloc E size' flags =
     bindM (thenM (dvmLockHeap E) (tryMalloc E size')) (\<lambda>ptr.
       thenM (dvmMalloc_locked E size' flags ptr)
      (thenM (dvmUnlockHeap E) (dvmMalloc_unlocked E flags ptr)))"
  by (simp add: dvmMalloc_def thenM_def bindM_assoc)

lemma dvmMalloc_tail_returns:
  "thenM (dvmMalloc_locked E size' flags ptr)
     (thenM (dvmUnlockHeap E) (dvmMalloc_unlocked E flags ptr)) s1 = Some (Returned p, s', out2)
   \<Longrightarrow> p = ptr"
  by (auto simp: dvmMalloc_locked_def dvmMalloc_unlocked_def dvmUnlockHeap_def throwOOME_def
      dvmHeapAddRefToLargeTable_def monad_defs split: if_splits)

lemma dvmMalloc_tail_failed:
  "thenM (dvmMalloc_locked E size' flags NULL)
     (thenM (dvmUnlockHeap E) (dvmMalloc_unlocked E flags NULL)) s1 = Some (r, s', out2)
   \<Longrightarrow> out2 \<noteq> [] \<and>
       (if dvmThreadSelf E then oome_set s' (last out2)
        else last out2 = Call (dvmUnlockMutex GcHeapLock))"
  by (auto simp: dvmMalloc_locked_def dvmMalloc_unlocked_def dvmUnlockHeap_def throwOOME_def
      oome_set_def monad_defs split: if_splits)

text \<open>
  C5, as amended. Whenever \<open>dvmMalloc\<close> returns \<open>NULL\<close> to a thread that has a
  \<open>Thread\<close> structure, the last thing it did was to set an \<open>OutOfMemoryError\<close> on
  that thread: with \<open>dvmThrowException\<close>, or with \<open>dvmSetException\<close> and the
  pre-built object. For a caller with no \<open>Thread\<close> structure the last thing it did was
  to release the heap lock: \<open>throwOOME\<close> has nothing to attach an exception to and does
  nothing.
\<close>

theorem dvmMalloc_null_throws:
  assumes "dvmMalloc E size' flags s = Some (Returned NULL, s', out)"
  shows "out \<noteq> [] \<and>
         (if dvmThreadSelf E then oome_set s' (last out)
          else last out = Call (dvmUnlockMutex GcHeapLock))"
proof -
  from assms obtain ptr s1 out1 out2 where
    t: "thenM (dvmMalloc_locked E size' flags ptr)
          (thenM (dvmUnlockHeap E) (dvmMalloc_unlocked E flags ptr)) s1 =
        Some (Returned NULL, s', out2)"
    and out: "out = out1 @ out2"
    unfolding dvmMalloc_pieces by (blast dest: bindM_returns)
  have "ptr = NULL" using dvmMalloc_tail_returns [OF t] by simp
  with t have "out2 \<noteq> [] \<and>
       (if dvmThreadSelf E then oome_set s' (last out2)
        else last out2 = Call (dvmUnlockMutex GcHeapLock))"
    by (intro dvmMalloc_tail_failed) simp
  then show ?thesis using out by simp
qed

theorem dvmMalloc_null_throws_witness:
  "dvmMalloc demo_env 2048 0 (demo_vm\<lparr>gcRunning := True\<rparr>) =
     Some (Returned NULL, demo_vm\<lparr>gcRunning := True\<rparr>,
       [Call (dvmTryLockMutex GcHeapLock),
        Log LOGW_HEAP ''dvmMalloc(%zu/0x%08zx): someone's allocating a huge buffer\<newline>''
          [Num 2048, Num 2048],
        Log LOGI_HEAP ''Forcing collection of SoftReferences for %zu-byte allocation\<newline>''
          [Num 2048],
        Log LOGD_HEAP ''dvmMalloc initiating GC%s\<newline>'' [Str ''(collect SoftReferences)''],
        Log LOGW_HEAP ''Attempted recursive GC\<newline>'' [],
        Call (dvmHeapSourceAllocAndGrow 2048),
        Log LOGE_HEAP ''Out of memory on a %zd-byte allocation.\<newline>'' [Num 2048],
        Call dvmDumpThread, Call (dvmUnlockMutex GcHeapLock),
        Call dvmIsOnThreadList,
        Call (dvmThrowException ''Ljava/lang/OutOfMemoryError;'' None)]) \<and>
   oome_set (demo_vm\<lparr>gcRunning := True\<rparr>)
     (Call (dvmThrowException ''Ljava/lang/OutOfMemoryError;'' None))"
proof -
  have e: "dvmMalloc demo_env 2048 0 (demo_vm\<lparr>gcRunning := True\<rparr>) =
     Some (Returned NULL, demo_vm\<lparr>gcRunning := True\<rparr>,
       [Call (dvmTryLockMutex GcHeapLock),
        Log LOGW_HEAP ''dvmMalloc(%zu/0x%08zx): someone's allocating a huge buffer\<newline>''
          [Num 2048, Num 2048],
        Log LOGI_HEAP ''Forcing collection of SoftReferences for %zu-byte allocation\<newline>''
          [Num 2048],
        Log LOGD_HEAP ''dvmMalloc initiating GC%s\<newline>'' [Str ''(collect SoftReferences)''],
        Log LOGW_HEAP ''Attempted recursive GC\<newline>'' [],
        Call (dvmHeapSourceAllocAndGrow 2048),
        Log LOGE_HEAP ''Out of memory on a %zd-byte allocation.\<newline>'' [Num 2048],
        Call dvmDumpThread, Call (dvmUnlockMutex GcHeapLock),
        Call dvmIsOnThreadList,
        Call (dvmThrowException ''Ljava/lang/OutOfMemoryError;'' None)])"
    by code_simp
  from dvmMalloc_null_throws [OF e] e show ?thesis by (simp add: demo_env_def)
qed

text \<open>
  C5 as the claim states it fails for a caller with no \<open>Thread\<close> structure. Such a
  caller asks for 2048 bytes of the small heap, whose growth limit is 1024: the
  collection that clears the soft references runs, the growing allocation fails,
  \<open>dvmMalloc\<close> returns \<open>NULL\<close>, and no event of the run sets an
  \<open>OutOfMemoryError\<close>.
\<close>

theorem dvmMalloc_null_without_exception:
  "map_option (\<lambda>(ptr, s', out). (ptr, filter (oome_set s') out))
     (dvmMalloc (demo_env\<lparr>dvmThreadSelf := False\<rparr>) 2048 0 demo_vm) =
   Some (Returned NULL, [])"
  by code_simp

lemma dvmMalloc_tail_finalizable:
  assumes "ptr \<noteq> NULL" and "flags AND ALLOC_FINALIZABLE E \<noteq> 0"
  shows "if largeTableHasRoom E (world s1) then
           (\<exists>s'. thenM (dvmMalloc_locked E size' flags ptr)
                    (thenM (dvmUnlockHeap E) (dvmMalloc_unlocked E flags ptr)) s1 =
                  Some (Returned ptr, s',
                    [Call (addRefToLargeTable FinalizableRefs ptr),
                     Call (dvmUnlockMutex GcHeapLock)] @
                    (if flags AND ALLOC_DONT_TRACK E = 0 then [Call (dvmAddTrackedAlloc ptr)]
                     else [])) \<and>
                finalizableRefs s' = finalizableRefs s1 @ [ptr])
         else
           thenM (dvmMalloc_locked E size' flags ptr)
             (thenM (dvmUnlockHeap E) (dvmMalloc_unlocked E flags ptr)) s1 =
           Some (Aborted, s1,
             [Call (addRefToLargeTable FinalizableRefs ptr),
              Log LOGE_HEAP ''dvmMalloc(): no room for any more finalizable objects\<newline>'' [],
              Call dvmAbort])"
  using assms
  by (simp add: dvmMalloc_locked_def dvmMalloc_unlocked_def dvmUnlockHeap_def
      dvmHeapAddRefToLargeTable_def monad_defs)

text \<open>
  C6. Take a run of \<open>dvmMalloc\<close> with the \<open>FINALIZABLE\<close> flag in which
  \<open>tryMalloc\<close>, under the heap lock, has returned a pointer that is not \<open>NULL\<close>. If
  the table takes the reference, \<open>dvmMalloc\<close> returns that pointer, the pointer is the
  last entry of \<open>finalizableRefs\<close> at the return, and the append is the event just
  before the release of the heap lock. If the append fails, \<open>dvmMalloc\<close> does not
  return: the process aborts, right after the failed append and the error line.
\<close>

theorem dvmMalloc_finalizable:
  assumes "thenM (dvmLockHeap E) (tryMalloc E size') s = Some (Returned ptr, s1, out1)"
    and "ptr \<noteq> NULL" and "flags AND ALLOC_FINALIZABLE E \<noteq> 0"
  shows "if largeTableHasRoom E (world s1) then
           (\<exists>s'. dvmMalloc E size' flags s =
                  Some (Returned ptr, s',
                    out1 @
                    [Call (addRefToLargeTable FinalizableRefs ptr),
                     Call (dvmUnlockMutex GcHeapLock)] @
                    (if flags AND ALLOC_DONT_TRACK E = 0 then [Call (dvmAddTrackedAlloc ptr)]
                     else [])) \<and>
                finalizableRefs s' = finalizableRefs s1 @ [ptr])
         else
           dvmMalloc E size' flags s =
           Some (Aborted, s1,
             out1 @
             [Call (addRefToLargeTable FinalizableRefs ptr),
              Log LOGE_HEAP ''dvmMalloc(): no room for any more finalizable objects\<newline>'' [],
              Call dvmAbort])"
proof -
  have d: "dvmMalloc E size' flags s =
      prepend_out out1 (thenM (dvmMalloc_locked E size' flags ptr)
         (thenM (dvmUnlockHeap E) (dvmMalloc_unlocked E flags ptr)) s1)"
    unfolding dvmMalloc_pieces using assms(1) by (rule bindM_Returned)
  show ?thesis
    using dvmMalloc_tail_finalizable [OF assms(2,3), of s1 size']
    by (auto simp: d prepend_out_simps split: if_splits)
qed

theorem dvmMalloc_finalizable_witness:
  "thenM (dvmLockHeap demo_env) (tryMalloc demo_env 0) demo_vm =
     Some (Returned 4096, demo_vm,
           [Call (dvmTryLockMutex GcHeapLock), Call (dvmHeapSourceAlloc 0)]) \<and>
   (4096 :: 32 word) \<noteq> NULL \<and> 2 AND ALLOC_FINALIZABLE demo_env \<noteq> 0 \<and>
   largeTableHasRoom demo_env (world demo_vm) \<and>
   dvmMalloc demo_env 0 2 demo_vm =
     Some (Returned 4096, demo_vm\<lparr>finalizableRefs := [4096]\<rparr>,
           [Call (dvmTryLockMutex GcHeapLock), Call (dvmHeapSourceAlloc 0),
            Call (addRefToLargeTable FinalizableRefs 4096),
            Call (dvmUnlockMutex GcHeapLock), Call (dvmAddTrackedAlloc 4096)]) \<and>
   dvmMalloc (demo_env\<lparr>largeTableHasRoom := \<lambda>w. False\<rparr>) 0 2 demo_vm =
     Some (Aborted, demo_vm,
           [Call (dvmTryLockMutex GcHeapLock), Call (dvmHeapSourceAlloc 0),
            Call (addRefToLargeTable FinalizableRefs 4096),
            Log LOGE_HEAP ''dvmMalloc(): no room for any more finalizable objects\<newline>'' [],
            Call dvmAbort])"
proof -
  let ?F = "demo_env\<lparr>largeTableHasRoom := \<lambda>w. False\<rparr>"
  have t: "thenM (dvmLockHeap demo_env) (tryMalloc demo_env 0) demo_vm =
     Some (Returned 4096, demo_vm,
           [Call (dvmTryLockMutex GcHeapLock), Call (dvmHeapSourceAlloc 0)])"
    by code_simp
  have t': "thenM (dvmLockHeap ?F) (tryMalloc ?F 0) demo_vm =
     Some (Returned 4096, demo_vm,
           [Call (dvmTryLockMutex GcHeapLock), Call (dvmHeapSourceAlloc 0)])"
    by code_simp
  have p: "(4096 :: 32 word) \<noteq> NULL" by simp
  have f: "2 AND ALLOC_FINALIZABLE demo_env \<noteq> 0" "2 AND ALLOC_FINALIZABLE ?F \<noteq> 0"
    by (simp_all add: demo_env_def)
  have r: "largeTableHasRoom demo_env (world demo_vm)" "\<not> largeTableHasRoom ?F (world demo_vm)"
    by (simp_all add: demo_env_def)
  have v: "dvmMalloc demo_env 0 2 demo_vm =
     Some (Returned 4096, demo_vm\<lparr>finalizableRefs := [4096]\<rparr>,
           [Call (dvmTryLockMutex GcHeapLock), Call (dvmHeapSourceAlloc 0),
            Call (addRefToLargeTable FinalizableRefs 4096),
            Call (dvmUnlockMutex GcHeapLock), Call (dvmAddTrackedAlloc 4096)])"
    by code_simp
  from dvmMalloc_finalizable [OF t' p f(2)] r(2) t p f(1) r(1) v
  show ?thesis by simp
qed

end
